theory Spec2Isabelle
  imports Complex_Main "HOL-Library.Log_Nat" "HOL-Library.List_Lexorder" "HOL-Library.Char_ord"
begin

section \<open>Particle sets (pyto/particles/set.py)\<close>

subsection \<open>Numbers\<close>

text \<open>
  Coordinates are numpy arrays of 64 bit integers: a coordinate is an integer, and every
  result of an addition or subtraction of the arrays is taken back into the range from
  \<open>-2^63\<close> to \<open>2^63 - 1\<close>, as numpy does without raising. The box size is a Python
  integer; it is taken to be in that range too, so that numpy keeps the arrays as 64 bit
  integers.
\<close>

definition wrap64 :: "int \<Rightarrow> int" where
  "wrap64 x = (x + 2 ^ 63) mod 2 ^ 64 - 2 ^ 63"

definition in_int64 :: "int \<Rightarrow> bool" where
  "in_int64 x = (- (2 ^ 63) \<le> x \<and> x < 2 ^ 63)"

text \<open>
  A numpy floating point number is a real number, infinity, minus infinity or nan. On the
  real numbers the operations are exact: rounding and overflow are left out, and so is the
  sign of zero (a zero divisor counts as +0, which is what a standard deviation is).
\<close>

datatype fval = Fin real | PInf | NInf | NaN

text \<open>The infinity with the sign of a real number; nan for 0.\<close>

definition sgn_inf :: "real \<Rightarrow> fval" where
  "sgn_inf r = (if 0 < r then PInf else if r < 0 then NInf else NaN)"

fun fsign :: "fval \<Rightarrow> real" where
  "fsign (Fin a) = sgn a"
| "fsign PInf = 1"
| "fsign NInf = - 1"
| "fsign NaN = 0"

fun fminus :: "fval \<Rightarrow> fval" where
  "fminus (Fin a) = Fin (- a)"
| "fminus PInf = NInf"
| "fminus NInf = PInf"
| "fminus NaN = NaN"

fun fadd :: "fval \<Rightarrow> fval \<Rightarrow> fval" where
  "fadd NaN y = NaN"
| "fadd x NaN = NaN"
| "fadd (Fin a) (Fin b) = Fin (a + b)"
| "fadd (Fin a) y = y"
| "fadd x (Fin b) = x"
| "fadd x y = (if x = y then x else NaN)"

definition fsub :: "fval \<Rightarrow> fval \<Rightarrow> fval" where
  "fsub x y = fadd x (fminus y)"

fun fmul :: "fval \<Rightarrow> fval \<Rightarrow> fval" where
  "fmul NaN y = NaN"
| "fmul x NaN = NaN"
| "fmul (Fin a) (Fin b) = Fin (a * b)"
| "fmul x y = sgn_inf (fsign x * fsign y)"

fun fdiv :: "fval \<Rightarrow> fval \<Rightarrow> fval" where
  "fdiv NaN y = NaN"
| "fdiv x NaN = NaN"
| "fdiv (Fin a) (Fin b) = (if b = 0 then sgn_inf a else Fin (a / b))"
| "fdiv (Fin a) y = Fin 0"
| "fdiv x (Fin b) = (if b = 0 then x else sgn_inf (fsign x * b))"
| "fdiv x y = NaN"

fun fsqrt :: "fval \<Rightarrow> fval" where
  "fsqrt (Fin a) = (if a < 0 then NaN else Fin (sqrt a))"
| "fsqrt PInf = PInf"
| "fsqrt NInf = NaN"
| "fsqrt NaN = NaN"

text \<open>Comparison of a floating point number with a real bound; nan compares false.\<close>

fun less_than :: "fval \<Rightarrow> real \<Rightarrow> bool" where
  "less_than (Fin a) r = (a < r)"
| "less_than NInf r = True"
| "less_than PInf r = False"
| "less_than NaN r = False"

fun greater_than :: "fval \<Rightarrow> real \<Rightarrow> bool" where
  "greater_than (Fin a) r = (r < a)"
| "greater_than PInf r = True"
| "greater_than NInf r = False"
| "greater_than NaN r = False"

text \<open>
  The mean and the standard deviation of an array without rounding, as numpy defines them:
  the sum divided by the number of elements, and the root of the mean of the squared
  deviations from the mean (\<open>ddof = 0\<close>). \<open>np_mean\<close> and \<open>np_std\<close> are the same on
  lists of real numbers.
\<close>

definition fsum :: "fval list \<Rightarrow> fval" where
  "fsum xs = foldr fadd xs (Fin 0)"

definition exact_mean :: "fval list \<Rightarrow> fval" where
  "exact_mean xs = fdiv (fsum xs) (Fin (real (length xs)))"

definition exact_std :: "fval list \<Rightarrow> fval" where
  "exact_std xs =
     fsqrt (exact_mean
       (map (\<lambda>x. fmul (fsub x (exact_mean xs)) (fsub x (exact_mean xs))) xs))"

definition np_mean :: "real list \<Rightarrow> real" where
  "np_mean xs = sum_list xs / real (length xs)"

definition np_std :: "real list \<Rightarrow> real" where
  "np_std xs = sqrt (sum_list (map (\<lambda>x. (x - np_mean xs)\<^sup>2) xs) / real (length xs))"

text \<open>The integer and floating point dtypes of numpy that \<open>self.dtype\<close> may name.\<close>

datatype np_dtype =
    Int8 | UInt8 | Int16 | UInt16 | Int32 | UInt32 | Int64 | UInt64
  | Float16 | Float32 | Float64

text \<open>
  What the code takes from numpy and the operating system and what depends on floating
  point arithmetic as a whole or on the platform: \<open>os.path.normpath\<close>, the reductions
  \<open>ndarray.mean()\<close> and \<open>ndarray.std()\<close>, \<open>np.log10(m).astype(int)\<close> for an
  integer \<open>m\<close> (for \<open>m \<le> 0\<close> the logarithm is minus infinity or nan, and its
  conversion to an integer is what the platform makes of it), and the conversion to an
  integer dtype of nan and of a number that the dtype cannot hold, which numpy leaves to
  the platform.
\<close>

record library =
  normpath :: "string \<Rightarrow> string"
  nd_mean :: "fval list \<Rightarrow> fval"
  nd_std :: "fval list \<Rightarrow> fval"
  log10_int :: "int \<Rightarrow> int"
  cast_overflow :: "np_dtype \<Rightarrow> fval \<Rightarrow> fval"

subsection \<open>Data\<close>

text \<open>One row of an N x 3 array of coordinates, and the three slices of a box.\<close>

type_synonym vec3 = "int \<times> int \<times> int"

type_synonym slice3 = "(int \<times> int) \<times> (int \<times> int) \<times> (int \<times> int)"

text \<open>
  The exceptions the modelled code raises. \<open>ValueError_box_size\<close> is the
  \<open>ValueError\<close> of \<open>adjust_box_coords\<close> (box size and shape are kept),
  \<open>ValueError_identifier\<close> the one of \<open>extract_particles\<close> (identifier and group
  names are kept), \<open>ValueError_format\<close> the one that \<open>str.format\<close> raises for a format
  specification with a negative width, \<open>ValueError_lengths\<close> the one pandas raises for
  columns of different lengths.
\<close>

datatype error =
    ValueError_box_size int vec3
  | ValueError_identifier string "string list"
  | ValueError_format
  | ValueError_lengths
  | KeyError string
  | NameError string
  | AttributeError string
  | IndexError

text \<open>
  The tomogram (\<open>self._tomo\<close>, a \<open>pyto.grey.Image\<close>): the shape of its data, its
  header, and \<open>useInset\<close>, which gives the voxels of a box (flattened). The class is not
  part of these sources, so \<open>useInset\<close> is a field of the record.
\<close>

record tomo =
  shape :: vec3
  header :: string
  useInset :: "slice3 \<Rightarrow> fval list"

text \<open>What the code does to the outside world: directories made and files written.\<close>

datatype fs_event =
    MakeDirs string nat
  | WriteMrc string "fval list" string

text \<open>
  One row of the catalog \<open>self.data\<close>: identifier, group name, id, tomo path, particle
  path, and the three coordinates of the left corner.
\<close>

type_synonym catalog_row = "string \<times> string \<times> int \<times> string \<times> string \<times> int \<times> int \<times> int"

text \<open>One group of the structure specific object: its identifiers and the ids of each.\<close>

record struct_group =
  identifiers :: "string list"
  ids_of :: "string \<rightharpoonup> int list"

text \<open>
  An instance of class \<open>Set\<close>. The attributes \<open>_tomo\<close>, \<open>_tomo_path\<close>, \<open>_ids\<close>,
  \<open>_left_corners\<close>, \<open>_centers\<close> and \<open>_particle_paths\<close> of the source are the
  fields \<open>cur_tomo\<close>, \<open>cur_tomo_path\<close>, \<open>cur_ids\<close>, \<open>cur_left_corners\<close>,
  \<open>cur_centers\<close> and \<open>cur_particle_paths\<close>. \<open>fs_log\<close> and \<open>warnings\<close> collect
  the effects of the methods in the order they happen.
\<close>

record set_state =
  struct :: "string \<rightharpoonup> struct_group"
  box_size :: int
  particle_dir :: string
  dir_mode :: nat
  dtype :: "np_dtype option"
  mean :: "real option"
  std :: "real option"
  data :: "catalog_row list option"
  cur_tomo :: tomo
  cur_tomo_path :: string
  cur_ids :: "int list"
  cur_left_corners :: "vec3 list"
  cur_centers :: "vec3 list"
  cur_particle_paths :: "string list"
  fs_log :: "fs_event list"
  warnings :: "string list"

subsection \<open>Box coordinates: \<open>Set.adjust_box_coords\<close>\<close>

text \<open>
  The arrays are treated elementwise by numpy, the box size is one number for all axes and
  the shape is broadcast over the rows. The definitions below give one element of each
  intermediate array of the source, under the source's name.
\<close>

definition half_size :: "int \<Rightarrow> int" where
  "half_size bs = bs div 2"

definition left_coords :: "int \<Rightarrow> int \<Rightarrow> int" where
  "left_coords bs c = wrap64 (c - half_size bs)"

definition left_fixed :: "int \<Rightarrow> int \<Rightarrow> int" where
  "left_fixed bs c = (if left_coords bs c < 0 then 0 else left_coords bs c)"

definition right_coords :: "int \<Rightarrow> int \<Rightarrow> int" where
  "right_coords bs c = wrap64 (left_fixed bs c + bs)"

definition right_fixed :: "int \<Rightarrow> int \<Rightarrow> int \<Rightarrow> int" where
  "right_fixed bs sh c = (if right_coords bs c \<ge> sh then sh else right_coords bs c)"

definition left_corner :: "int \<Rightarrow> int \<Rightarrow> int \<Rightarrow> int" where
  "left_corner bs sh c = wrap64 (right_fixed bs sh c - bs)"

definition new_center :: "int \<Rightarrow> int \<Rightarrow> int \<Rightarrow> int" where
  "new_center bs sh c = wrap64 (left_corner bs sh c + half_size bs)"

text \<open>A function of (box size, shape, centre) on one axis, applied to the three axes of a row.\<close>

fun on_axes :: "(int \<Rightarrow> int \<Rightarrow> int) \<Rightarrow> vec3 \<Rightarrow> vec3 \<Rightarrow> vec3" where
  "on_axes f (sx, sy, sz) (cx, cy, cz) = (f sx cx, f sy cy, f sz cz)"

text \<open>\<open>(shape < self.box_size).any()\<close>\<close>

fun shape_lt_any :: "vec3 \<Rightarrow> int \<Rightarrow> bool" where
  "shape_lt_any (sx, sy, sz) bs = (sx < bs \<or> sy < bs \<or> sz < bs)"

definition adjust_box_coords :: "vec3 list \<Rightarrow> set_state \<Rightarrow> error + set_state" where
  "adjust_box_coords centers st =
     (let shp = shape (cur_tomo st); bs = box_size st in
      if shape_lt_any shp bs then Inl (ValueError_box_size bs shp)
      else if length centers > 0 then
        Inr (st\<lparr>cur_left_corners := map (on_axes (left_corner bs) shp) centers,
                cur_centers := map (on_axes (new_center bs) shp) centers\<rparr>)
      else Inr (st\<lparr>cur_left_corners := [], cur_centers := []\<rparr>))"

text \<open>A box with the given left corner lies inside the volume on every axis.\<close>

fun box_inside :: "vec3 \<Rightarrow> int \<Rightarrow> vec3 \<Rightarrow> bool" where
  "box_inside (sx, sy, sz) bs (lx, ly, lz) =
     (0 \<le> lx \<and> lx + bs \<le> sx \<and> 0 \<le> ly \<and> ly + bs \<le> sy \<and> 0 \<le> lz \<and> lz + bs \<le> sz)"

text \<open>The box size is at most the shape on every axis.\<close>

fun box_fits :: "vec3 \<Rightarrow> int \<Rightarrow> bool" where
  "box_fits (sx, sy, sz) bs = (bs \<le> sx \<and> bs \<le> sy \<and> bs \<le> sz)"

text \<open>
  On one axis, none of the three results of the integer arithmetic leaves the range of
  the 64 bit integers: centre - half size, the left coordinate (0 if that is negative) +
  box size, and shape - box size.
\<close>

definition axis_in_range :: "int \<Rightarrow> int \<Rightarrow> int \<Rightarrow> bool" where
  "axis_in_range bs sh c =
     (in_int64 (c - bs div 2) \<and> in_int64 (max 0 (c - bs div 2) + bs) \<and> in_int64 (sh - bs))"

fun in_range :: "int \<Rightarrow> vec3 \<Rightarrow> vec3 \<Rightarrow> bool" where
  "in_range bs (sx, sy, sz) (cx, cy, cz) =
     (axis_in_range bs sx cx \<and> axis_in_range bs sy cy \<and> axis_in_range bs sz cz)"

subsection \<open>Normalization of the intensities (the loop body of \<open>Set.write_particles\<close>)\<close>

text \<open>
  \<open>if self.std is not None: particle_data = self.std * particle_data / particle_data.std()\<close>.
  There is no guard: when the standard deviation that numpy has computed is 0, the
  division gives infinity or nan (with a RuntimeWarning of numpy) and the code goes on.
\<close>

definition rescale_std :: "library \<Rightarrow> real option \<Rightarrow> fval list \<Rightarrow> fval list" where
  "rescale_std l std_arg particle_data =
     (case std_arg of
        None \<Rightarrow> particle_data
      | Some s \<Rightarrow> map (\<lambda>x. fdiv (fmul (Fin s) x) (nd_std l particle_data)) particle_data)"

text \<open>
  \<open>if self.mean is not None: particle_data = particle_data - particle_data.mean() + self.mean\<close>
\<close>

definition shift_mean :: "library \<Rightarrow> real option \<Rightarrow> fval list \<Rightarrow> fval list" where
  "shift_mean l mean_arg particle_data =
     (case mean_arg of
        None \<Rightarrow> particle_data
      | Some m \<Rightarrow> map (\<lambda>x. fadd (fsub x (nd_mean l particle_data)) (Fin m)) particle_data)"

text \<open>The two steps in the order of the source.\<close>

definition normalize :: "library \<Rightarrow> real option \<Rightarrow> real option \<Rightarrow> fval list \<Rightarrow> fval list" where
  "normalize l std_arg mean_arg particle_data =
     shift_mean l mean_arg (rescale_std l std_arg particle_data)"

subsection \<open>Clipping and conversion to the dtype\<close>

text \<open>
  \<open>np.finfo\<close> raises ValueError (here \<open>None\<close>) for a dtype that is not a floating point
  one; \<open>np.iinfo\<close> is then asked. Both give the smallest and the largest value of the dtype.
\<close>

fun finfo :: "np_dtype \<Rightarrow> (real \<times> real) option" where
  "finfo Float16 = Some (- 65504, 65504)"
| "finfo Float32 = Some (- ((2 - 1 / 2 ^ 23) * 2 ^ 127), (2 - 1 / 2 ^ 23) * 2 ^ 127)"
| "finfo Float64 = Some (- ((2 - 1 / 2 ^ 52) * 2 ^ 1023), (2 - 1 / 2 ^ 52) * 2 ^ 1023)"
| "finfo _ = None"

fun iinfo :: "np_dtype \<Rightarrow> real \<times> real" where
  "iinfo Int8 = (- 128, 127)"
| "iinfo UInt8 = (0, 255)"
| "iinfo Int16 = (- 32768, 32767)"
| "iinfo UInt16 = (0, 65535)"
| "iinfo Int32 = (- 2147483648, 2147483647)"
| "iinfo UInt32 = (0, 4294967295)"
| "iinfo Int64 = (- 9223372036854775808, 9223372036854775807)"
| "iinfo UInt64 = (0, 18446744073709551615)"

definition range_info :: "np_dtype \<Rightarrow> real \<times> real" where
  "range_info d = (case finfo d of Some r \<Rightarrow> r | None \<Rightarrow> iinfo d)"

text \<open>
  \<open>range_info.min\<close> and \<open>range_info.max\<close> as the comparisons and \<open>np.clip\<close> take
  them. The voxels are float64 numbers, so a bound that is an integer is converted to
  float64: this changes the largest values of int64 and uint64, \<open>2^63 - 1\<close> and
  \<open>2^64 - 1\<close>, which are rounded to \<open>2^63\<close> and \<open>2^64\<close>, and no other bound.
\<close>

fun clip_bounds :: "np_dtype \<Rightarrow> real \<times> real" where
  "clip_bounds Int64 = (- (2 ^ 63), 2 ^ 63)"
| "clip_bounds UInt64 = (0, 2 ^ 64)"
| "clip_bounds d = range_info d"

text \<open>
  \<open>np.clip\<close> on one element, that is \<open>minimum(maximum(x, lo), hi)\<close>: nan stays nan.
\<close>

fun np_clip :: "real \<Rightarrow> real \<Rightarrow> fval \<Rightarrow> fval" where
  "np_clip lo hi (Fin a) = Fin (min (max a lo) hi)"
| "np_clip lo hi PInf = Fin hi"
| "np_clip lo hi NInf = Fin (min lo hi)"
| "np_clip lo hi NaN = NaN"

text \<open>
  \<open>astype(dtype, casting='unsafe')\<close> on one element, after the clipping: conversion to
  a floating point dtype only rounds, which is left out; conversion to an integer dtype
  drops the fraction (towards zero) when the dtype can hold the result, and is left to
  the platform otherwise and for nan.
\<close>

fun trunc_fval :: "fval \<Rightarrow> fval" where
  "trunc_fval (Fin a) = Fin (if 0 \<le> a then of_int \<lfloor>a\<rfloor> else of_int \<lceil>a\<rceil>)"
| "trunc_fval x = x"

definition astype :: "library \<Rightarrow> np_dtype \<Rightarrow> fval \<Rightarrow> fval" where
  "astype l d x =
     (case finfo d of
        Some r \<Rightarrow> x
      | None \<Rightarrow>
          (case trunc_fval x of
             Fin t \<Rightarrow>
               if fst (iinfo d) \<le> t \<and> t \<le> snd (iinfo d) then Fin t else cast_overflow l d x
           | _ \<Rightarrow> cast_overflow l d x))"

text \<open>
  \<open>(particle_data < range_info.min).any() or (particle_data > range_info.max).any()\<close>
\<close>

definition needs_clip :: "real \<times> real \<Rightarrow> fval list \<Rightarrow> bool" where
  "needs_clip r particle_data =
     (list_ex (\<lambda>x. less_than x (fst r)) particle_data
      \<or> list_ex (\<lambda>x. greater_than x (snd r)) particle_data)"

text \<open>
  The text of the warning. In the source \<open>format\<close> is applied to the second string literal
  only, so the first placeholder stays as it is and the second one takes the path.
\<close>

definition clip_warning :: "string \<Rightarrow> string" where
  "clip_warning path = ''Warning: Particle {} needs to be clipped to convert it to '' @ path"

text \<open>
  The block \<open>if self.dtype is not None: ...\<close>: the warnings issued and the new data.
\<close>

definition clip_cast ::
  "library \<Rightarrow> np_dtype option \<Rightarrow> string \<Rightarrow> fval list \<Rightarrow> string list \<times> fval list" where
  "clip_cast l dtype_arg path particle_data =
     (case dtype_arg of
        None \<Rightarrow> ([], particle_data)
      | Some d \<Rightarrow>
          let r = clip_bounds d in
          (if needs_clip r particle_data then [clip_warning path] else [],
           map (\<lambda>x. astype l d (np_clip (fst r) (snd r) x)) particle_data))"

subsection \<open>Particle file names\<close>

text \<open>The decimal digits of a natural number, as \<open>str\<close> and \<open>format\<close> write them.\<close>

definition digit_char :: "nat \<Rightarrow> char" where
  "digit_char d = char_of (48 + d)"

fun str_nat :: "nat \<Rightarrow> string" where
  "str_nat n = (if n < 10 then [digit_char n] else str_nat (n div 10) @ [digit_char (n mod 10)])"

declare str_nat.simps [simp del]

text \<open>
  The format specification \<open>{:0Nd}\<close> for width \<open>N\<close>: the number is padded with zeros
  on the left, after the sign, to at least \<open>N\<close> characters.
\<close>

definition format_0d :: "nat \<Rightarrow> int \<Rightarrow> string" where
  "format_0d n i =
     (if 0 \<le> i then replicate (n - length (str_nat (nat i))) CHR ''0'' @ str_nat (nat i)
      else CHR ''-'' # replicate (n - 1 - length (str_nat (nat (- i)))) CHR ''0''
             @ str_nat (nat (- i)))"

text \<open>
  \<open>n_digits = np.log10(m).astype(int) + 1\<close>, and what the format string makes of it:
  \<open>str(n_digits)\<close> is written into the format specification as the width, and
  \<open>format\<close> raises ValueError when the width has a minus sign.
\<close>

definition n_digits_of :: "library \<Rightarrow> int \<Rightarrow> error + nat" where
  "n_digits_of l m =
     (let n_digits = log10_int l m + 1 in
      if n_digits < 0 then Inl ValueError_format else Inr (nat n_digits))"

text \<open>\<open>('{}_id-{:0' + str(n_digits) + 'd}.mrc').format(identifier, id_)\<close>\<close>

definition particle_name :: "nat \<Rightarrow> string \<Rightarrow> int \<Rightarrow> string" where
  "particle_name n_digits identifier pid = identifier @ ''_id-'' @ format_0d n_digits pid @ ''.mrc''"

text \<open>The block "make particle paths" up to \<open>particle_names\<close>; \<open>ids\<close> is not empty there.\<close>

definition particle_names :: "library \<Rightarrow> bool \<Rightarrow> string \<Rightarrow> int list \<Rightarrow> error + string list" where
  "particle_names l keep_ids identifier ids =
     (if keep_ids then
        (case n_digits_of l (Max (set ids)) of
           Inl e \<Rightarrow> Inl e
         | Inr n_digits \<Rightarrow> Inr (map (particle_name n_digits identifier) ids))
      else
        (let n_ids = length ids in
         case n_digits_of l (int n_ids) of
           Inl e \<Rightarrow> Inl e
         | Inr n_digits \<Rightarrow>
             Inr (map (particle_name n_digits identifier) (map int [0..<n_ids]))))"

text \<open>\<open>os.path.join\<close> of two components (POSIX).\<close>

definition os_path_join :: "string \<Rightarrow> string \<Rightarrow> string" where
  "os_path_join a b =
     (if b \<noteq> [] \<and> hd b = CHR ''/'' then b
      else if a = [] \<or> last a = CHR ''/'' then a @ b
      else a @ ''/'' @ b)"

text \<open>
  \<open>[os.path.normpath(os.path.join(self.particle_dir, name)) for name in particle_names]\<close>
\<close>

definition particle_paths :: "library \<Rightarrow> string \<Rightarrow> string list \<Rightarrow> string list" where
  "particle_paths l pdir names = map (\<lambda>name. normpath l (os_path_join pdir name)) names"

subsection \<open>\<open>Set.write_particles\<close>\<close>

text \<open>
  The three slices of one left corner, and the list \<open>slices\<close>. The sum of a coordinate
  and the box size is a 64 bit integer of numpy.
\<close>

fun make_slice :: "int \<Rightarrow> vec3 \<Rightarrow> slice3" where
  "make_slice bs (c0, c1, c2) =
     ((c0, wrap64 (c0 + bs)), (c1, wrap64 (c1 + bs)), (c2, wrap64 (c2 + bs)))"

definition make_slices :: "set_state \<Rightarrow> slice3 list" where
  "make_slices st = map (make_slice (box_size st)) (cur_left_corners st)"

text \<open>
  The data of one particle before it is clipped: the voxels of the box, normalized.
\<close>

definition particle_data_of :: "library \<Rightarrow> set_state \<Rightarrow> slice3 \<Rightarrow> fval list" where
  "particle_data_of l st sl = normalize l (std st) (mean st) (useInset (cur_tomo st) sl)"

text \<open>One pass of the loop "write particles".\<close>

definition write_one :: "library \<Rightarrow> bool \<Rightarrow> slice3 \<Rightarrow> string \<Rightarrow> set_state \<Rightarrow> set_state" where
  "write_one l test sl path st =
     (let cc = clip_cast l (dtype st) path (particle_data_of l st sl);
          st1 = st\<lparr>warnings := warnings st @ fst cc\<rparr>
      in if test then st1
         else st1\<lparr>fs_log := fs_log st1 @ [WriteMrc path (snd cc) (header (cur_tomo st1))]\<rparr>)"

fun write_loop :: "library \<Rightarrow> bool \<Rightarrow> (slice3 \<times> string) list \<Rightarrow> set_state \<Rightarrow> set_state" where
  "write_loop l test [] st = st"
| "write_loop l test ((sl, path) # rest) st = write_loop l test rest (write_one l test sl path st)"

text \<open>\<open>if ids is None: ids = self._ids\<close>; \<open>None\<close> is the default of the argument.\<close>

definition ids_used :: "int list option \<Rightarrow> set_state \<Rightarrow> int list" where
  "ids_used ids_arg st = (case ids_arg of None \<Rightarrow> cur_ids st | Some i \<Rightarrow> i)"

definition write_particles ::
  "library \<Rightarrow> string \<Rightarrow> int list option \<Rightarrow> bool \<Rightarrow> bool \<Rightarrow> set_state \<Rightarrow> error + set_state" where
  "write_particles l identifier ids_arg keep_ids test st =
     (let ids = ids_used ids_arg st in
      if length ids = 0 then Inr (st\<lparr>cur_particle_paths := []\<rparr>)
      else
        let slices = make_slices st in
        case particle_names l keep_ids identifier ids of
          Inl e \<Rightarrow> Inl e
        | Inr names \<Rightarrow>
            let st1 = st\<lparr>cur_particle_paths := particle_paths l (particle_dir st) names\<rparr>;
                st2 = st1\<lparr>fs_log := fs_log st1 @ [MakeDirs (particle_dir st1) (dir_mode st1)]\<rparr>
            in Inr (write_loop l test (zip slices (cur_particle_paths st2)) st2))"

subsection \<open>\<open>Set.add_data\<close>\<close>

text \<open>
  The table of the current dataset has one row for each id; pandas raises ValueError when
  the columns differ in length. \<open>DataFrame.append\<close> puts the rows after the old ones.
\<close>

definition curr_data :: "string \<Rightarrow> string \<Rightarrow> set_state \<Rightarrow> catalog_row list" where
  "curr_data group_name identifier st =
     map (\<lambda>(i, p, (x, y, z)). (identifier, group_name, i, cur_tomo_path st, p, x, y, z))
       (zip (cur_ids st) (zip (cur_particle_paths st) (cur_left_corners st)))"

definition add_data :: "string \<Rightarrow> string \<Rightarrow> set_state \<Rightarrow> error + set_state" where
  "add_data group_name identifier st =
     (if length (cur_ids st) = 0 then Inr st
      else if length (cur_particle_paths st) = length (cur_ids st)
              \<and> length (cur_left_corners st) = length (cur_ids st) then
        Inr (st\<lparr>data :=
          (case data st of
             None \<Rightarrow> Some (curr_data group_name identifier st)
           | Some d \<Rightarrow> Some (d @ curr_data group_name identifier st))\<rparr>)
      else Inl ValueError_lengths)"

subsection \<open>\<open>Set.get_coordinates_single\<close> and \<open>Set.extract_particles\<close>\<close>

text \<open>
  What these two methods use and is not modelled here: the library, files
  (\<open>get_tomo_path\<close> loads a module from the disk, \<open>pyto.grey.Image.read\<close> reads the
  tomogram), and the label set, an instance of \<open>pyto.particles.LabelSet\<close>, which is not
  part of these sources. \<open>'l\<close> is the state of the label set.
\<close>

record 'l externals =
  lib :: library
  get_tomo_path :: "string \<Rightarrow> error + string"
  image_read :: "string \<Rightarrow> error + tomo"
  lab_get_coordinates_single :: "string \<Rightarrow> string \<Rightarrow> 'l \<Rightarrow> error + 'l"
  lab_pickle_path :: "'l \<Rightarrow> string"
  lab_centers_abs :: "'l \<Rightarrow> vec3 list"
  lab_set_box_coords :: "vec3 list \<Rightarrow> vec3 list \<Rightarrow> 'l \<Rightarrow> error + 'l"
  lab_write_particles :: "string \<Rightarrow> 'l \<Rightarrow> error + 'l"
  lab_add_data :: "string \<Rightarrow> string \<Rightarrow> 'l \<Rightarrow> error + 'l"

text \<open>Sequencing of steps that may raise.\<close>

definition and_then :: "error + 'a \<Rightarrow> ('a \<Rightarrow> error + 'b) \<Rightarrow> error + 'b" where
  "and_then r f = (case r of Inl e \<Rightarrow> Inl e | Inr x \<Rightarrow> f x)"

text \<open>\<open>self.struct[group_name].getValue(name='ids', identifier=identifier)\<close>\<close>

definition get_ids :: "(string \<rightharpoonup> struct_group) \<Rightarrow> string \<Rightarrow> string \<Rightarrow> error + int list" where
  "get_ids sg group_name identifier =
     (case sg group_name of
        None \<Rightarrow> Inl (KeyError group_name)
      | Some grp \<Rightarrow>
          (case ids_of grp identifier of
             None \<Rightarrow> Inl (KeyError identifier)
           | Some i \<Rightarrow> Inr i))"

definition get_coordinates_single ::
  "'l externals \<Rightarrow> string \<Rightarrow> string \<Rightarrow> 'l \<Rightarrow> set_state \<Rightarrow> error + set_state" where
  "get_coordinates_single ext group_name identifier label_set st =
     and_then (get_tomo_path ext (lab_pickle_path ext label_set)) (\<lambda>tp.
     and_then (image_read ext tp) (\<lambda>tm.
     and_then (get_ids (struct st) group_name identifier) (\<lambda>i.
     adjust_box_coords (lab_centers_abs ext label_set)
       (st\<lparr>cur_tomo_path := tp, cur_tomo := tm, cur_ids := i\<rparr>))))"

text \<open>
  The constructor, as \<open>extract_particles\<close> calls it. The attributes of the current
  dataset do not exist yet in the source; their fields hold empty values until
  \<open>get_coordinates_single\<close> sets them.
\<close>

definition new_set ::
  "(string \<rightharpoonup> struct_group) \<Rightarrow> int \<Rightarrow> string \<Rightarrow> nat \<Rightarrow> np_dtype option \<Rightarrow> real option
     \<Rightarrow> real option \<Rightarrow> set_state" where
  "new_set sg bs pdir dmode dt mn sd =
     \<lparr>struct = sg, box_size = bs, particle_dir = pdir, dir_mode = dmode, dtype = dt,
      mean = mn, std = sd, data = None,
      cur_tomo = \<lparr>shape = (0, 0, 0), header = [], useInset = (\<lambda>sl. [])\<rparr>,
      cur_tomo_path = [], cur_ids = [], cur_left_corners = [], cur_centers = [],
      cur_particle_paths = [], fs_log = [], warnings = []\<rparr>"

text \<open>
  The statements of the inner loop after the test of the identifier, from "get
  coordinates" to "update data".
\<close>

definition process_dataset ::
  "'l externals \<Rightarrow> string \<Rightarrow> string \<Rightarrow> set_state \<times> 'l \<Rightarrow> error + set_state \<times> 'l" where
  "process_dataset ext g_name ident pl =
     (case pl of (particles, labels) \<Rightarrow>
     and_then (lab_get_coordinates_single ext g_name ident labels) (\<lambda>l1.
     and_then (get_coordinates_single ext g_name ident l1 particles) (\<lambda>p1.
     and_then (lab_set_box_coords ext (cur_left_corners p1) (cur_centers p1) l1) (\<lambda>l2.
     and_then (write_particles (lib ext) ident None True False p1) (\<lambda>p2.
     and_then (lab_write_particles ext ident l2) (\<lambda>l3.
     and_then (add_data g_name ident p2) (\<lambda>p3.
     and_then (lab_add_data ext g_name ident l3) (\<lambda>l4.
     Inr (p3, l4)))))))))"

text \<open>
  The inner loop \<open>for g_name in group_names\<close>. The result holds \<open>group_found\<close>.
  \<open>particles.struct[g_name]\<close> raises KeyError for a name that the structure does not have.
\<close>

fun group_loop ::
  "'l externals \<Rightarrow> string \<Rightarrow> string list \<Rightarrow> set_state \<times> 'l \<Rightarrow> error + bool \<times> set_state \<times> 'l"
  where
  "group_loop ext ident [] pl = Inr (False, pl)"
| "group_loop ext ident (g_name # rest) pl =
     (case struct (fst pl) g_name of
        None \<Rightarrow> Inl (KeyError g_name)
      | Some grp \<Rightarrow>
          if ident \<in> set (identifiers grp) then
            and_then (process_dataset ext g_name ident pl) (\<lambda>pl'. Inr (True, pl'))
          else group_loop ext ident rest pl)"

text \<open>The outer loop \<open>for ident in identifiers\<close>.\<close>

fun ident_loop ::
  "'l externals \<Rightarrow> string list \<Rightarrow> string list \<Rightarrow> set_state \<times> 'l \<Rightarrow> error + set_state \<times> 'l"
  where
  "ident_loop ext group_names [] pl = Inr pl"
| "ident_loop ext group_names (ident # rest) pl =
     and_then (group_loop ext ident group_names pl) (\<lambda>r.
       if fst r then ident_loop ext group_names rest (snd r)
       else Inl (ValueError_identifier ident group_names))"

text \<open>
  \<open>labels0\<close> is the label set as its constructor returns it.
\<close>

definition extract_particles ::
  "'l externals \<Rightarrow> 'l \<Rightarrow> (string \<rightharpoonup> struct_group) \<Rightarrow> string list \<Rightarrow> string list \<Rightarrow> int
     \<Rightarrow> string \<Rightarrow> nat \<Rightarrow> np_dtype option \<Rightarrow> real option \<Rightarrow> real option
     \<Rightarrow> error + set_state \<times> 'l" where
  "extract_particles ext labels0 sg group_names idents bs pdir dmode dt mn sd =
     ident_loop ext group_names idents (new_set sg bs pdir dmode dt mn sd, labels0)"

section \<open>The correlation script (examples/correlation/two\_step\_move-search\_gl.py)\<close>

subsection \<open>Data\<close>

text \<open>
  A position is a pair of coordinates, an array of positions a list of pairs. Coordinates
  are floating point numbers, modelled as real numbers.
\<close>

type_synonym point = "real \<times> real"

definition pt_sub :: "point \<Rightarrow> point \<Rightarrow> point" where
  "pt_sub a b = (fst a - fst b, snd a - snd b)"

definition pt_add :: "point \<Rightarrow> point \<Rightarrow> point" where
  "pt_add a b = (fst a + fst b, snd a + snd b)"

text \<open>Rows of a positions file: a list of row numbers, or \<open>None\<close> for all rows.\<close>

datatype rows = AllRows | Rows "nat list"

text \<open>
  A transformation (\<open>pyto.geometry.Affine2D\<close>, not part of these sources), with the
  attributes that \<open>main\<close> reads and writes: the errors are floating point numbers, the
  scale is an array of them. An attribute that is \<open>None\<close> in Python is \<open>None\<close> here.
\<close>

record affine =
  rmsError :: "fval option"
  rmsErrorEst :: "fval option"
  scale :: "fval list"

text \<open>
  The correlation object gets its attributes one by one while \<open>main\<close> runs, so it is a
  map from the names of the attributes to their values.
\<close>

datatype attr =
    Pts "point list"
  | Pt point
  | Labels "string list"
  | Txt string
  | PyNone
  | Transform affine

type_synonym corr = "string \<rightharpoonup> attr"

text \<open>A dictionary of position specifications, in the order of insertion.\<close>

type_synonym specs = "(string \<times> string \<times> rows) list"

text \<open>
  The parameters at the top of the script. A name that the user may leave out (comment out)
  is an option: \<open>None\<close> means that the name is not defined, and reading it raises
  NameError.
\<close>

record params =
  positions_file_type :: string
  xy_columns :: "int list"
  lm_markers_file :: string
  lm_markers_rows :: "rows option"
  lm_markers_rows_gl :: "rows option"
  lm_markers_rows_d :: "rows option"
  overview_markers_file :: string
  overview_markers_rows :: "rows option"
  overview_markers_rows_gl :: "rows option"
  overview_markers_rows_d :: "rows option"
  lm2overview_type :: string
  overview2search_mode :: string
  overview_detail_file :: string
  overview_detail_rows :: rows
  mosaic :: bool
  overview_mosaic_main_row :: nat
  overview_main_row :: nat
  overview_detail_xy_columns :: "int list"
  search_detail :: "point list option"
  search_detail_file :: "string option"
  search_detail_rows :: "rows option"
  search_detail_xy_columns :: "int list"
  search_main :: point
  overview_center :: point
  overview2search_type :: string
  lm_spots_file :: string
  lm_spots_rows :: "rows option"
  lm_spots_xy_columns :: "int list"
  overview_spots :: "point list option"
  overview_spot_labels :: "string list option"
  search_spots :: "point list option"
  search_spots_file :: "string option"
  search_spots_rows :: "rows option"
  search_spot_labels :: "string list option"
  search_spots_xy_columns :: "int list"

text \<open>
  What \<open>main\<close> calls and is not part of these sources: the reader of a positions file
  (file, format, columns and rows give the positions), \<open>EmLmCorrelation.establish\<close>
  (the fits) and \<open>Affine2D.inverse\<close>.
\<close>

record main_externals =
  read_table :: "string \<Rightarrow> string \<Rightarrow> int list \<Rightarrow> rows \<Rightarrow> error + point list"
  establish :: "string \<Rightarrow> string \<Rightarrow> corr \<Rightarrow> error + corr"
  inverse :: "affine \<Rightarrow> error + affine"

subsection \<open>Positions for the LM to overview transformation\<close>

text \<open>
  The handler \<open>except NameError\<close> of "setup positions for lm2overview": the entries are
  added to what the \<open>try\<close> block has put into \<open>pos_read\<close> before it failed.
\<close>

definition split_specs :: "params \<Rightarrow> specs \<Rightarrow> error + specs" where
  "split_specs p pos_read =
     (case lm_markers_rows_gl p of
        None \<Rightarrow> Inl (NameError ''lm_markers_rows_gl'')
      | Some r_lm_gl \<Rightarrow>
     (case lm_markers_rows_d p of
        None \<Rightarrow> Inl (NameError ''lm_markers_rows_d'')
      | Some r_lm_d \<Rightarrow>
     (case overview_markers_rows_gl p of
        None \<Rightarrow> Inl (NameError ''overview_markers_rows_gl'')
      | Some r_ov_gl \<Rightarrow>
     (case overview_markers_rows_d p of
        None \<Rightarrow> Inl (NameError ''overview_markers_rows_d'')
      | Some r_ov_d \<Rightarrow>
          Inr (pos_read @
            [(''lmMarkersGl'', lm_markers_file p, r_lm_gl),
             (''lmMarkersD'', lm_markers_file p, r_lm_d),
             (''overviewMarkersGl'', overview_markers_file p, r_ov_gl),
             (''overviewMarkersD'', overview_markers_file p, r_ov_d)])))))"

text \<open>The statement \<open>try: ... except NameError: ...\<close> as a whole.\<close>

definition lm2overview_specs :: "params \<Rightarrow> error + specs" where
  "lm2overview_specs p =
     (case lm_markers_rows p of
        None \<Rightarrow> split_specs p []
      | Some r_lm \<Rightarrow>
     (case overview_markers_rows p of
        None \<Rightarrow> split_specs p [(''lmMarkers'', lm_markers_file p, r_lm)]
      | Some r_ov \<Rightarrow>
          Inr [(''lmMarkers'', lm_markers_file p, r_lm),
               (''overviewMarkers'', overview_markers_file p, r_ov)]))"

text \<open>
  Modelled from the spec: \<open>EmLmCorrelation.readPositions\<close>, which is not part of these
  sources. The spec has a reader that gives, for a source and a selection of rows, a
  sequence of (x, y) pairs with the columns chosen by the caller; \<open>main\<close> finds the
  positions of each entry under the attribute that has the name of the entry's key.
\<close>

fun readPositions :: "main_externals \<Rightarrow> specs \<Rightarrow> string \<Rightarrow> int list \<Rightarrow> corr \<Rightarrow> error + corr" where
  "readPositions ext [] fmt cols c = Inr c"
| "readPositions ext ((key, file, rws) # rest) fmt cols c =
     and_then (read_table ext file fmt cols rws) (\<lambda>pts.
       readPositions ext rest fmt cols (c(key \<mapsto> Pts pts)))"

subsection \<open>Mosaic correction\<close>

text \<open>Reading an attribute that holds an array of positions.\<close>

definition get_pts :: "corr \<Rightarrow> string \<Rightarrow> error + point list" where
  "get_pts c name =
     (case c name of Some (Pts ps) \<Rightarrow> Inr ps | _ \<Rightarrow> Inl (AttributeError name))"

text \<open>
  \<open>corr.overviewMarkers - corr.mosaic_markers[0] + corr.mosaic_markers[1]\<close>: the two rows
  are broadcast over the markers.
\<close>

definition shift_markers :: "point list \<Rightarrow> point list \<Rightarrow> error + point list" where
  "shift_markers overviewMarkers mosaic_markers =
     (case mosaic_markers of
        m0 # m1 # rest \<Rightarrow> Inr (map (\<lambda>q. pt_add (pt_sub q m0) m1) overviewMarkers)
      | _ \<Rightarrow> Inl IndexError)"

text \<open>The block "mosaic correction: shift all overview markers".\<close>

definition mosaic_correction :: "main_externals \<Rightarrow> params \<Rightarrow> corr \<Rightarrow> error + corr" where
  "mosaic_correction ext p c =
     (if overview2search_mode p = ''move overview'' \<and> mosaic p then
        (let mosaic_rows = [overview_mosaic_main_row p, overview_main_row p];
             mosaic_read = [(''mosaic_markers'', overview_detail_file p, Rows mosaic_rows)] in
         and_then (readPositions ext mosaic_read (positions_file_type p) (xy_columns p) c) (\<lambda>c1.
         and_then (get_pts c1 ''overviewMarkers'') (\<lambda>om.
         and_then (get_pts c1 ''mosaic_markers'') (\<lambda>mm.
         and_then (shift_markers om mm) (\<lambda>om'.
         Inr (c1(''overviewMarkers'' \<mapsto> Pts om')))))))
      else Inr c)"

text \<open>
  The first part of \<open>main\<close>, "Find transformation between LM and EM overview systems".
  \<open>corr0\<close> is the correlation object as its constructor returns it.
\<close>

definition lm_overview_part :: "main_externals \<Rightarrow> params \<Rightarrow> corr \<Rightarrow> error + corr" where
  "lm_overview_part ext p corr0 =
     and_then (lm2overview_specs p) (\<lambda>pos_read.
     and_then (readPositions ext pos_read (positions_file_type p) (xy_columns p) corr0) (\<lambda>c.
     mosaic_correction ext p c))"

subsection \<open>Positions for the overview to search transformation, and spots\<close>

text \<open>
  The statement \<open>try: corr.searchDetail = numpy.asarray(search_detail) except NameError: ...\<close>
\<close>

definition read_search_detail :: "main_externals \<Rightarrow> params \<Rightarrow> corr \<Rightarrow> error + corr" where
  "read_search_detail ext p c =
     (case search_detail p of
        Some sd \<Rightarrow> Inr (c(''searchDetail'' \<mapsto> Pts sd))
      | None \<Rightarrow>
     (case search_detail_file p of
        None \<Rightarrow> Inl (NameError ''search_detail_file'')
      | Some f \<Rightarrow>
     (case search_detail_rows p of
        None \<Rightarrow> Inl (NameError ''search_detail_rows'')
      | Some r \<Rightarrow>
          readPositions ext [(''searchDetail'', f, r)] (positions_file_type p)
            (search_detail_xy_columns p) c)))"

text \<open>
  The second part of \<open>main\<close>, "Find transformation between EM overview and EM stage
  systems", up to "setup spots".
\<close>

definition overview_search_part :: "main_externals \<Rightarrow> params \<Rightarrow> corr \<Rightarrow> error + corr" where
  "overview_search_part ext p c =
     (let c1 = c(''mode'' \<mapsto> Txt (overview2search_mode p));
          pos_read = [(''overviewDetail'', overview_detail_file p, overview_detail_rows p)] in
      and_then (readPositions ext pos_read (positions_file_type p)
                  (overview_detail_xy_columns p) c1) (\<lambda>c2.
      and_then (read_search_detail ext p c2) (\<lambda>c3.
      Inr (if c3 ''mode'' = Some (Txt ''move overview'')
           then c3(''searchMain'' \<mapsto> Pt (search_main p),
                   ''overviewCenter'' \<mapsto> Pt (overview_center p))
           else c3))))"

text \<open>
  "setup spots". The dictionary \<open>spot_pos_read\<close> is read twice, the second time with the
  entry for the search spots when these are given in a file.
\<close>

definition spots_part :: "main_externals \<Rightarrow> params \<Rightarrow> corr \<Rightarrow> error + corr" where
  "spots_part ext p c =
     (let spot_pos_read1 =
            (case lm_spots_rows p of
               Some r \<Rightarrow> [(''lmSpots'', lm_spots_file p, r)]
             | None \<Rightarrow> []);
          c1 = (case lm_spots_rows p of Some r \<Rightarrow> c | None \<Rightarrow> c(''lmSpots'' \<mapsto> PyNone)) in
      and_then (readPositions ext spot_pos_read1 (positions_file_type p)
                  (lm_spots_xy_columns p) c1) (\<lambda>c2.
      (let c3 = c2(''overviewSpots'' \<mapsto>
                    (case overview_spots p of Some sp \<Rightarrow> Pts sp | None \<Rightarrow> PyNone));
           c4 = c3(''overviewSpotLabels'' \<mapsto>
                    (case overview_spot_labels p of Some l \<Rightarrow> Labels l | None \<Rightarrow> PyNone));
           c5 = c4(''searchSpots'' \<mapsto>
                    (case search_spots p of Some sp \<Rightarrow> Pts sp | None \<Rightarrow> PyNone));
           spot_pos_read2 =
             (case search_spots p of
                Some sp \<Rightarrow> spot_pos_read1
              | None \<Rightarrow>
             (case search_spots_file p of
                None \<Rightarrow> spot_pos_read1
              | Some f \<Rightarrow>
             (case search_spots_rows p of
                None \<Rightarrow> spot_pos_read1
              | Some r \<Rightarrow> spot_pos_read1 @ [(''searchSpots'', f, r)])));
           c6 = c5(''searchSpotLabels'' \<mapsto>
                    (case search_spot_labels p of Some l \<Rightarrow> Labels l | None \<Rightarrow> PyNone))
       in readPositions ext spot_pos_read2 (positions_file_type p)
            (search_spots_xy_columns p) c6)))"

text \<open>Everything \<open>main\<close> does before it calls \<open>corr.establish\<close>.\<close>

definition before_establish :: "main_externals \<Rightarrow> params \<Rightarrow> corr \<Rightarrow> error + corr" where
  "before_establish ext p corr0 =
     and_then (lm_overview_part ext p corr0) (\<lambda>c1.
     and_then (overview_search_part ext p c1) (\<lambda>c2.
     spots_part ext p c2))"

subsection \<open>Inverse correlations\<close>

text \<open>Reading an attribute that holds a transformation.\<close>

definition get_transform :: "corr \<Rightarrow> string \<Rightarrow> error + affine" where
  "get_transform c name =
     (case c name of Some (Transform t) \<Rightarrow> Inr t | _ \<Rightarrow> Inl (AttributeError name))"

text \<open>
  \<open>numpy.multiply.reduce\<close> of an array: the product of its elements from the left, and
  1 for an empty array.
\<close>

definition multiply_reduce :: "fval list \<Rightarrow> fval" where
  "multiply_reduce xs = (case xs of [] \<Rightarrow> Fin 1 | x # rest \<Rightarrow> foldl fmul x rest)"

text \<open>
  \<open>x * numpy.sqrt(numpy.multiply.reduce(corr.overview2lm.scale))\<close>, written to
  \<open>rmsErrorEst\<close>. The square root of a negative number is nan in numpy (with a
  RuntimeWarning), and the script goes on with it.
\<close>

definition set_scaled_error :: "fval \<Rightarrow> affine \<Rightarrow> affine" where
  "set_scaled_error x overview2lm =
     overview2lm\<lparr>rmsErrorEst := Some (fmul x (fsqrt (multiply_reduce (scale overview2lm))))\<rparr>"

text \<open>
  The statement \<open>if corr.overview2lm.rmsError is None: ...\<close>; the first argument is
  \<open>corr.lm2overview\<close>, the second \<open>corr.overview2lm\<close> as \<open>inverse\<close> has returned it.
\<close>

definition estimate_inverse_error :: "affine \<Rightarrow> affine \<Rightarrow> affine" where
  "estimate_inverse_error lm2overview overview2lm =
     (case rmsError overview2lm of
        Some e \<Rightarrow> overview2lm
      | None \<Rightarrow>
     (case rmsError lm2overview of
        Some e \<Rightarrow> set_scaled_error e overview2lm
      | None \<Rightarrow>
     (case rmsErrorEst lm2overview of
        Some e \<Rightarrow> set_scaled_error e overview2lm
      | None \<Rightarrow> overview2lm\<lparr>rmsError := None\<rparr>)))"

text \<open>The block "inverse correlations".\<close>

definition inverse_correlations :: "main_externals \<Rightarrow> corr \<Rightarrow> error + corr" where
  "inverse_correlations ext c =
     and_then (get_transform c ''lm2search'') (\<lambda>lm2search.
     and_then (inverse ext lm2search) (\<lambda>search2lm.
     (let c1 = c(''search2lm'' \<mapsto> Transform search2lm) in
      and_then (get_transform c1 ''lm2overview'') (\<lambda>lm2overview.
      and_then (inverse ext lm2overview) (\<lambda>overview2lm.
      (let c2 = c1(''overview2lm'' \<mapsto>
                    Transform (estimate_inverse_error lm2overview overview2lm)) in
       and_then (get_transform c2 ''overview2search'') (\<lambda>overview2search.
       and_then (inverse ext overview2search) (\<lambda>search2overview.
       Inr (c2(''search2overview'' \<mapsto> Transform search2overview))))))))))"

text \<open>
  \<open>main\<close> from its start to the end of "inverse correlations". The correlation of the
  spots and the output follow in the source.
\<close>

definition main_correlation :: "main_externals \<Rightarrow> params \<Rightarrow> corr \<Rightarrow> error + corr" where
  "main_correlation ext p corr0 =
     and_then (before_establish ext p corr0) (\<lambda>c.
     and_then (establish ext (lm2overview_type p) (overview2search_type p) c) (\<lambda>c'.
     inverse_correlations ext c'))"

section \<open>Concrete inputs\<close>

text \<open>
  A library without rounding: the reductions are the exact ones, and the logarithm is the
  floor of the exact one for a positive number and the smallest 64 bit integer otherwise.
  A conversion that the integer dtype cannot hold gives the smallest value of the dtype,
  as the conversion to int64 does on an x86-64 processor.
\<close>

definition example_library :: library where
  "example_library =
     \<lparr>normpath = (\<lambda>s. s), nd_mean = exact_mean, nd_std = exact_std,
      log10_int = (\<lambda>m. if 0 < m then int (floorlog 10 (nat m)) - 1 else - (2 ^ 63)),
      cast_overflow = (\<lambda>d x. Fin (fst (iinfo d)))\<rparr>"

text \<open>A tomogram of shape (100, 100, 100) and a particle set with boxes of size 10.\<close>

definition example_tomo :: tomo where
  "example_tomo =
     \<lparr>shape = (100, 100, 100), header = ''hdr'', useInset = (\<lambda>sl. [Fin 0, Fin 2])\<rparr>"

definition example_set :: set_state where
  "example_set =
     (new_set Map.empty 10 ''particles'' 509 None None None)\<lparr>cur_tomo := example_tomo\<rparr>"




text \<open>
  Collaborators of \<open>extract_particles\<close> that always succeed, with a label set that has two
  centres, and a structure with one group that has one dataset with the ids 3 and 12.
\<close>

definition example_externals :: "unit externals" where
  "example_externals =
     \<lparr>lib = example_library,
      get_tomo_path = (\<lambda>s. Inr ''tomo.mrc''),
      image_read = (\<lambda>s. Inr example_tomo),
      lab_get_coordinates_single = (\<lambda>g i l. Inr l),
      lab_pickle_path = (\<lambda>l. ''pickles/a.pkl''),
      lab_centers_abs = (\<lambda>l. [(2, 2, 2), (98, 98, 98)]),
      lab_set_box_coords = (\<lambda>lc c l. Inr l),
      lab_write_particles = (\<lambda>i l. Inr l),
      lab_add_data = (\<lambda>g i l. Inr l)\<rparr>"

definition example_struct :: "string \<rightharpoonup> struct_group" where
  "example_struct =
     [''ctrl'' \<mapsto> \<lparr>identifiers = [''exp_1''], ids_of = [''exp_1'' \<mapsto> [3, 12]]\<rparr>]"

text \<open>
  The parameters as the script sets them (the split marker rows are given, the unified ones
  are commented out), and variants of them: only the unified marker rows, both sets of
  marker rows, none of them, and the unified marker rows in the mode "move overview" with
  a mosaic.
\<close>

definition script_params :: params where
  "script_params =
     \<lparr>positions_file_type = ''imagej'',
      xy_columns = [2, 3],
      lm_markers_file = ''correlation_data.dat'',
      lm_markers_rows = None,
      lm_markers_rows_gl = Some (Rows [6, 7, 8, 9]),
      lm_markers_rows_d = Some (Rows [6]),
      overview_markers_file = ''correlation_data.dat'',
      overview_markers_rows = None,
      overview_markers_rows_gl = Some (Rows [0, 1, 2, 3]),
      overview_markers_rows_d = Some (Rows [0]),
      lm2overview_type = ''gl'',
      overview2search_mode = ''move search'',
      overview_detail_file = ''correlation_data.dat'',
      overview_detail_rows = Rows [13, 14, 15, 16],
      mosaic = False,
      overview_mosaic_main_row = 17,
      overview_main_row = 13,
      overview_detail_xy_columns = [2, 3],
      search_detail = Some [(2, - (2 / 10)), (4, - 1), (6, 0), (52 / 10, 1)],
      search_detail_file = None,
      search_detail_rows = None,
      search_detail_xy_columns = [- 3, - 2],
      search_main = (2, - (2 / 10)),
      overview_center = (400, 400),
      overview2search_type = ''gl'',
      lm_spots_file = ''correlation_data.dat'',
      lm_spots_rows = Some (Rows [6, 7, 8, 9]),
      lm_spots_xy_columns = [2, 3],
      overview_spots = None,
      overview_spot_labels = Some [''tomo 1, roughly''],
      search_spots = Some [(2, - 1), (2, 1), (6, 1), (6, - 1)],
      search_spots_file = None,
      search_spots_rows = None,
      search_spot_labels = Some [''tomo 1'', ''tomo 2'', ''axon'', ''dendrite''],
      search_spots_xy_columns = [2, 3]\<rparr>"

definition unified_params :: params where
  "unified_params =
     script_params\<lparr>lm_markers_rows := Some (Rows [6, 7]), overview_markers_rows := Some (Rows [0, 1]),
       lm_markers_rows_gl := None, lm_markers_rows_d := None,
       overview_markers_rows_gl := None, overview_markers_rows_d := None\<rparr>"

definition both_params :: params where
  "both_params =
     script_params\<lparr>lm_markers_rows := Some (Rows [6, 7]), overview_markers_rows := Some (Rows [0, 1])\<rparr>"

definition neither_params :: params where
  "neither_params =
     script_params\<lparr>lm_markers_rows_gl := None, lm_markers_rows_d := None,
       overview_markers_rows_gl := None, overview_markers_rows_d := None\<rparr>"

definition mosaic_params :: params where
  "mosaic_params = unified_params\<lparr>overview2search_mode := ''move overview'', mosaic := True\<rparr>"


text \<open>
  A reader that gives the position (r, 10 r) for the row r of any file, a fit that changes
  nothing and an inverse that returns its argument.
\<close>

definition example_main_externals :: main_externals where
  "example_main_externals =
     \<lparr>read_table = (\<lambda>file fmt cols rws.
        case rws of AllRows \<Rightarrow> Inr [] | Rows rs \<Rightarrow> Inr (map (\<lambda>r. (real r, 10 * real r)) rs)),
      establish = (\<lambda>t1 t2 c. Inr c),
      inverse = (\<lambda>t. Inr t)\<rparr>"




section \<open>Properties of the particle sets\<close>

subsection \<open>Boxes stay inside the tomogram\<close>

lemma wrap64_id: "in_int64 x \<Longrightarrow> wrap64 x = x"
  by (simp add: wrap64_def in_int64_def)

lemma left_corner_bounds:
  assumes "bs \<le> sh" and "axis_in_range bs sh c"
  shows "0 \<le> left_corner bs sh c \<and> left_corner bs sh c + bs \<le> sh"
proof -
  from assms(2) have r: "in_int64 (c - bs div 2)" "in_int64 (max 0 (c - bs div 2) + bs)"
    "in_int64 (sh - bs)"
    by (simp_all add: axis_in_range_def)
  have lc: "left_coords bs c = c - bs div 2"
    by (simp add: left_coords_def half_size_def wrap64_id r(1))
  have lf: "left_fixed bs c = max 0 (c - bs div 2)"
    by (simp add: left_fixed_def lc)
  have rc: "right_coords bs c = max 0 (c - bs div 2) + bs"
    by (simp add: right_coords_def lf wrap64_id r(2))
  show ?thesis
  proof (cases "sh \<le> max 0 (c - bs div 2) + bs")
    case True
    then have "left_corner bs sh c = sh - bs"
      by (simp add: left_corner_def right_fixed_def rc wrap64_id r(3))
    with assms(1) show ?thesis by simp
  next
    case False
    from r(1) have "in_int64 (max 0 (c - bs div 2))"
      by (simp add: in_int64_def)
    with False have "left_corner bs sh c = max 0 (c - bs div 2)"
      by (simp add: left_corner_def right_fixed_def rc wrap64_id)
    with False show ?thesis by simp
  qed
qed

lemma on_axes_left_corner_inside:
  "box_fits shp bs \<Longrightarrow> in_range bs shp c \<Longrightarrow> box_inside shp bs (on_axes (left_corner bs) shp c)"
  by (cases shp; cases c) (simp add: left_corner_bounds)

lemma example_set_simps:
  "shape (cur_tomo example_set) = (100, 100, 100)" "box_size example_set = 10"
  by (simp_all add: example_set_def example_tomo_def new_set_def)

text \<open>
  The centre with the largest 64 bit integer on every axis, in the tomogram of shape
  (100, 100, 100) with box size 10: left coordinate + box size wraps to a negative number,
  nothing is shifted, and the left corner is 9223372036854775802 on every axis.
\<close>

theorem adjust_box_coords_wrap_counterexample:
  "box_fits (shape (cur_tomo example_set)) (box_size example_set)
   \<and> adjust_box_coords [(9223372036854775807, 9223372036854775807, 9223372036854775807)]
       example_set
     = Inr (example_set\<lparr>cur_left_corners :=
              [(9223372036854775802, 9223372036854775802, 9223372036854775802)],
            cur_centers := [(9223372036854775807, 9223372036854775807, 9223372036854775807)]\<rparr>)
   \<and> \<not> box_inside (100, 100, 100) 10
         (9223372036854775802, 9223372036854775802, 9223372036854775802)"
  by (simp add: example_set_simps adjust_box_coords_def new_center_def left_corner_def
      right_fixed_def right_coords_def left_fixed_def left_coords_def half_size_def wrap64_def)

text \<open>
  C1, as the code has it. For every shape of the tomogram, every box size and all centres,
  also centres outside of the tomogram, for which the 64 bit integer arithmetic does not
  wrap (on every axis centre - half size, left coordinate + box size and
  shape - box size are in the range of the 64 bit integers): if the box size is at most
  the shape on every axis, then \<open>adjust_box_coords\<close> returns, with one left corner for
  each centre, and every left corner is at least 0 and left corner + box size is at most
  the shape on every axis. If the box size is larger than the shape on some axis, it
  raises the ValueError for the box size, whatever the centres are.
\<close>

theorem adjust_box_coords_inside:
  "(box_fits (shape (cur_tomo st)) (box_size st)
      \<and> (\<forall>c \<in> set centers. in_range (box_size st) (shape (cur_tomo st)) c) \<longrightarrow>
      (\<exists>st'. adjust_box_coords centers st = Inr st'
         \<and> length (cur_left_corners st') = length centers
         \<and> (\<forall>l \<in> set (cur_left_corners st'). box_inside (shape (cur_tomo st)) (box_size st) l)))
   \<and> (\<not> box_fits (shape (cur_tomo st)) (box_size st) \<longrightarrow>
      adjust_box_coords centers st = Inl (ValueError_box_size (box_size st) (shape (cur_tomo st))))"
proof (intro conjI impI)
  assume a: "box_fits (shape (cur_tomo st)) (box_size st)
      \<and> (\<forall>c \<in> set centers. in_range (box_size st) (shape (cur_tomo st)) c)"
  then have no_err: "\<not> shape_lt_any (shape (cur_tomo st)) (box_size st)"
    by (cases "shape (cur_tomo st)") auto
  show "\<exists>st'. adjust_box_coords centers st = Inr st'
         \<and> length (cur_left_corners st') = length centers
         \<and> (\<forall>l \<in> set (cur_left_corners st'). box_inside (shape (cur_tomo st)) (box_size st) l)"
    using no_err a by (auto simp add: adjust_box_coords_def Let_def on_axes_left_corner_inside)
next
  assume "\<not> box_fits (shape (cur_tomo st)) (box_size st)"
  then have "shape_lt_any (shape (cur_tomo st)) (box_size st)"
    by (cases "shape (cur_tomo st)") auto
  then show "adjust_box_coords centers st
      = Inl (ValueError_box_size (box_size st) (shape (cur_tomo st)))"
    by (simp add: adjust_box_coords_def Let_def)
qed

theorem adjust_box_coords_inside_witness:
  "box_fits (shape (cur_tomo example_set)) (box_size example_set)
   \<and> in_range (box_size example_set) (shape (cur_tomo example_set)) (-50, 300, 7)
   \<and> (\<exists>st'. adjust_box_coords [(-50, 300, 7)] example_set = Inr st'
         \<and> cur_left_corners st' = [(0, 90, 2)])
   \<and> \<not> box_fits (shape (cur_tomo (example_set\<lparr>box_size := 101\<rparr>)))
         (box_size (example_set\<lparr>box_size := 101\<rparr>))
   \<and> adjust_box_coords [(50, 50, 50)] (example_set\<lparr>box_size := 101\<rparr>)
       = Inl (ValueError_box_size 101 (100, 100, 100))"
  using adjust_box_coords_inside [of example_set "[(-50, 300, 7)]"]
    adjust_box_coords_inside [of "example_set\<lparr>box_size := 101\<rparr>" "[(50, 50, 50)]"]
  by (simp add: example_set_simps adjust_box_coords_def left_corner_def right_fixed_def
      right_coords_def left_fixed_def left_coords_def half_size_def wrap64_def
      axis_in_range_def in_int64_def)

text \<open>
  C5. In a tomogram of shape (100, 100, 100) with box size 10, the centre (2, 2, 2) gets
  the left corner (0, 0, 0) and the corrected centre (5, 5, 5); for the centre (98, 98, 98)
  the right corner is set to (100, 100, 100), the left corner is (90, 90, 90) and the
  corrected centre (95, 95, 95).
\<close>

theorem adjust_box_coords_examples:
  "shape (cur_tomo st) = (100, 100, 100) \<Longrightarrow> box_size st = 10 \<Longrightarrow>
     adjust_box_coords [(2, 2, 2)] st
       = Inr (st\<lparr>cur_left_corners := [(0, 0, 0)], cur_centers := [(5, 5, 5)]\<rparr>)
   \<and> on_axes (right_fixed 10) (100, 100, 100) (98, 98, 98) = (100, 100, 100)
   \<and> adjust_box_coords [(98, 98, 98)] st
       = Inr (st\<lparr>cur_left_corners := [(90, 90, 90)], cur_centers := [(95, 95, 95)]\<rparr>)"
  by (simp add: adjust_box_coords_def new_center_def left_corner_def right_fixed_def
      right_coords_def left_fixed_def left_coords_def half_size_def wrap64_def)

theorem adjust_box_coords_examples_witness:
  "shape (cur_tomo example_set) = (100, 100, 100) \<and> box_size example_set = 10
   \<and> adjust_box_coords [(2, 2, 2)] example_set
       = Inr (example_set\<lparr>cur_left_corners := [(0, 0, 0)], cur_centers := [(5, 5, 5)]\<rparr>)
   \<and> adjust_box_coords [(98, 98, 98)] example_set
       = Inr (example_set\<lparr>cur_left_corners := [(90, 90, 90)], cur_centers := [(95, 95, 95)]\<rparr>)"
  using adjust_box_coords_examples [of example_set] by (simp add: example_set_simps)

subsection \<open>Datasets without ids\<close>

text \<open>
  C10. For a dataset whose list of ids is empty (taken from \<open>self._ids\<close> or given as the
  argument \<open>ids\<close>), \<open>write_particles\<close> sets the particle paths to the empty list and
  returns: nothing else of the state changes, so no directory is made and no file is
  written. \<open>add_data\<close> returns the state as it is, so the catalog \<open>self.data\<close> is
  unchanged.
\<close>

theorem empty_ids_no_effect:
  "cur_ids st = [] \<Longrightarrow>
     write_particles np identifier None keep_ids test st = Inr (st\<lparr>cur_particle_paths := []\<rparr>)
   \<and> write_particles np identifier (Some []) keep_ids test st = Inr (st\<lparr>cur_particle_paths := []\<rparr>)
   \<and> fs_log (st\<lparr>cur_particle_paths := []\<rparr>) = fs_log st
   \<and> add_data group_name identifier st = Inr st
   \<and> add_data group_name identifier (st\<lparr>cur_particle_paths := []\<rparr>)
       = Inr (st\<lparr>cur_particle_paths := []\<rparr>)
   \<and> data (st\<lparr>cur_particle_paths := []\<rparr>) = data st"
  by (simp add: write_particles_def ids_used_def add_data_def)

theorem empty_ids_no_effect_witness:
  "cur_ids example_set = []
   \<and> write_particles example_library ''exp_1'' None True False example_set
       = Inr (example_set\<lparr>cur_particle_paths := []\<rparr>)
   \<and> fs_log (example_set\<lparr>cur_particle_paths := []\<rparr>) = []
   \<and> add_data ''ctrl'' ''exp_1'' example_set = Inr example_set
   \<and> data example_set = None"
  using empty_ids_no_effect [of example_set example_library "''exp_1''" True False "''ctrl''"]
  by (simp add: example_set_def new_set_def)

subsection \<open>Identifiers that belong to no group\<close>

lemma and_then_Inr_iff:
  "and_then r f = Inr y \<longleftrightarrow> (\<exists>x. r = Inr x \<and> f x = Inr y)"
  by (cases r) (simp_all add: and_then_def)

lemma adjust_box_coords_struct:
  "adjust_box_coords cs st = Inr st' \<Longrightarrow> struct st' = struct st"
  by (auto simp add: adjust_box_coords_def Let_def split: if_splits)

lemma get_coordinates_single_struct:
  "get_coordinates_single ext g i l st = Inr st' \<Longrightarrow> struct st' = struct st"
  by (auto simp add: get_coordinates_single_def and_then_Inr_iff dest!: adjust_box_coords_struct)

lemma write_one_struct: "struct (write_one l test sl path st) = struct st"
  by (simp add: write_one_def Let_def)

lemma write_loop_struct: "struct (write_loop l test xs st) = struct st"
  by (induction xs arbitrary: st) (auto simp add: write_one_struct)

lemma write_particles_struct:
  "write_particles l i ids k t st = Inr st' \<Longrightarrow> struct st' = struct st"
  by (auto simp add: write_particles_def Let_def write_loop_struct split: if_splits sum.splits)

lemma add_data_struct:
  "add_data g i st = Inr st' \<Longrightarrow> struct st' = struct st"
  by (auto simp add: add_data_def split: if_splits)

lemma process_dataset_struct:
  "process_dataset ext g i pl = Inr pl' \<Longrightarrow> struct (fst pl') = struct (fst pl)"
  by (cases pl)
    (auto simp add: process_dataset_def and_then_Inr_iff
      dest!: get_coordinates_single_struct write_particles_struct add_data_struct)

lemma group_loop_struct:
  "group_loop ext i gs pl = Inr (b, pl') \<Longrightarrow> struct (fst pl') = struct (fst pl)"
proof (induction gs)
  case Nil
  then show ?case by simp
next
  case (Cons g gs)
  then show ?case
    by (auto simp add: and_then_Inr_iff split: option.splits if_splits
        dest!: process_dataset_struct)
qed

lemma ident_loop_struct:
  "ident_loop ext gs idents pl = Inr pl' \<Longrightarrow> struct (fst pl') = struct (fst pl)"
proof (induction idents arbitrary: pl)
  case Nil
  then show ?case by simp
next
  case (Cons i idents)
  from Cons.prems obtain b pl1 where
    g: "group_loop ext i gs pl = Inr (b, pl1)" and r: "ident_loop ext gs idents pl1 = Inr pl'"
    by (auto simp add: and_then_Inr_iff split: if_splits)
  from Cons.IH [OF r] group_loop_struct [OF g] show ?case by simp
qed

lemma ident_loop_append:
  "ident_loop ext gs (xs @ ys) pl = and_then (ident_loop ext gs xs pl) (ident_loop ext gs ys)"
proof (induction xs arbitrary: pl)
  case Nil
  then show ?case by (simp add: and_then_def)
next
  case (Cons x xs)
  show ?case
  proof (cases "group_loop ext x gs pl")
    case (Inl e)
    then show ?thesis by (simp add: and_then_def)
  next
    case (Inr r)
    then show ?thesis using Cons.IH [of "snd r"] by (simp add: and_then_def)
  qed
qed

lemma group_loop_not_found:
  "\<forall>g \<in> set gs. \<exists>grp. struct (fst pl) g = Some grp \<and> ident \<notin> set (identifiers grp) \<Longrightarrow>
     group_loop ext ident gs pl = Inr (False, pl)"
  by (induction gs) auto

lemma write_one_fields:
  "cur_ids (write_one l test sl path st) = cur_ids st"
  "cur_particle_paths (write_one l test sl path st) = cur_particle_paths st"
  "cur_left_corners (write_one l test sl path st) = cur_left_corners st"
  by (simp_all add: write_one_def Let_def)

lemma write_loop_fields:
  "cur_ids (write_loop l test xs st) = cur_ids st"
  "cur_particle_paths (write_loop l test xs st) = cur_particle_paths st"
  "cur_left_corners (write_loop l test xs st) = cur_left_corners st"
  by (induction xs arbitrary: st; auto simp add: write_one_fields)+

lemma example_log10: "log10_int example_library 12 = 1"
  by (simp add: example_library_def compute_floorlog)

lemma example_extract_one:
  "\<exists>pl. extract_particles example_externals () example_struct [''ctrl''] [''exp_1'']
          10 ''particles'' 509 None None None = Inr pl"
  by (simp add: extract_particles_def new_set_def example_externals_def example_struct_def
      process_dataset_def and_then_def get_coordinates_single_def get_ids_def
      adjust_box_coords_def write_particles_def ids_used_def particle_names_def n_digits_of_def
      example_log10 add_data_def example_tomo_def Let_def write_loop_fields particle_paths_def)

text \<open>
  C9. When the structure has all the given groups and a requested identifier is in the
  list of identifiers of none of them, \<open>extract_particles\<close> raises: the ValueError that
  names this identifier and the groups, unless the identifiers requested before it have
  already raised an exception, which is then the result.
\<close>

theorem extract_particles_unknown_identifier:
  assumes no_group: "\<forall>g \<in> set group_names. \<exists>grp. sg g = Some grp \<and> ident \<notin> set (identifiers grp)"
    and requested: "idents = before @ ident # after"
  shows "extract_particles ext labels0 sg group_names idents bs pdir dmode dt mn sd
           = (case extract_particles ext labels0 sg group_names before bs pdir dmode dt mn sd of
                Inl e \<Rightarrow> Inl e
              | Inr pl \<Rightarrow> Inl (ValueError_identifier ident group_names))"
proof (cases "extract_particles ext labels0 sg group_names before bs pdir dmode dt mn sd")
  case (Inl e)
  then show ?thesis
    by (simp add: extract_particles_def requested ident_loop_append and_then_def)
next
  case (Inr pl)
  then have "struct (fst pl) = sg"
    by (auto simp add: extract_particles_def new_set_def dest!: ident_loop_struct)
  with no_group have "group_loop ext ident group_names pl = Inr (False, pl)"
    by (intro group_loop_not_found) simp
  with Inr show ?thesis
    by (simp add: extract_particles_def requested ident_loop_append and_then_def)
qed

theorem extract_particles_unknown_identifier_witness:
  "extract_particles example_externals () example_struct [''ctrl''] [''exp_1'', ''exp_9'']
     10 ''particles'' 509 None None None
   = Inl (ValueError_identifier ''exp_9'' [''ctrl''])"
proof -
  obtain pl where one:
    "extract_particles example_externals () example_struct [''ctrl''] [''exp_1'']
       10 ''particles'' 509 None None None = Inr pl"
    using example_extract_one by blast
  have no_group:
    "\<forall>g \<in> set [''ctrl'']. \<exists>grp. example_struct g = Some grp \<and> ''exp_9'' \<notin> set (identifiers grp)"
    by (simp add: example_struct_def)
  have requested: "[''exp_1'', ''exp_9''] = [''exp_1''] @ ''exp_9'' # []"
    by simp
  show ?thesis
    using extract_particles_unknown_identifier [OF no_group requested,
        of example_externals "()" 10 "''particles''" 509 None None None]
    by (simp add: one)
qed

subsection \<open>Normalization of the intensities\<close>

lemma np_mean_scale: "np_mean (map (\<lambda>x. k * x) xs) = k * np_mean xs"
  by (simp add: np_mean_def sum_list_const_mult)

lemma np_mean_shift: "xs \<noteq> [] \<Longrightarrow> np_mean (map (\<lambda>x. x + k) xs) = np_mean xs + k"
  by (simp add: np_mean_def sum_list_addf sum_list_triv add_divide_distrib)

lemma np_std_scale: "np_std (map (\<lambda>x. k * x) xs) = \<bar>k\<bar> * np_std xs"
proof -
  have "sum_list (map (\<lambda>x. (k * x - k * np_mean xs)\<^sup>2) xs)
      = k\<^sup>2 * sum_list (map (\<lambda>x. (x - np_mean xs)\<^sup>2) xs)"
    by (simp add: sum_list_const_mult power_mult_distrib flip: right_diff_distrib)
  then have "np_std (map (\<lambda>x. k * x) xs)
      = sqrt (k\<^sup>2 * (sum_list (map (\<lambda>x. (x - np_mean xs)\<^sup>2) xs) / real (length xs)))"
    by (simp add: np_std_def np_mean_scale comp_def)
  also have "\<dots> = \<bar>k\<bar> * np_std xs"
    by (simp only: real_sqrt_mult real_sqrt_abs np_std_def)
  finally show ?thesis .
qed

lemma np_std_shift: "xs \<noteq> [] \<Longrightarrow> np_std (map (\<lambda>x. x + k) xs) = np_std xs"
  by (simp add: np_std_def np_mean_shift comp_def)

lemma rescale_map: "map (\<lambda>x. s * x / d) xs = map (\<lambda>x. (s / d) * x) (xs :: real list)"
  by (rule map_cong) simp_all

lemma shift_map: "map (\<lambda>x. x - c + m) xs = map (\<lambda>x. x + (m - c)) (xs :: real list)"
  by (rule map_cong) simp_all

lemma np_std_nonneg: "0 \<le> np_std xs"
  by (auto simp add: np_std_def intro!: divide_nonneg_nonneg sum_list_nonneg)

lemma np_std_nonzero_nonempty: "np_std xs \<noteq> 0 \<Longrightarrow> xs \<noteq> []"
  by (auto simp add: np_std_def)

lemma fsum_Fin: "fsum (map Fin rs) = Fin (sum_list rs)"
  by (induction rs) (simp_all add: fsum_def)

lemma exact_mean_Fin: "rs \<noteq> [] \<Longrightarrow> exact_mean (map Fin rs) = Fin (np_mean rs)"
  by (simp add: exact_mean_def fsum_Fin np_mean_def)

lemma exact_std_Fin:
  assumes "rs \<noteq> []"
  shows "exact_std (map Fin rs) = Fin (np_std rs)"
proof -
  let ?sq = "map (\<lambda>r. (r - np_mean rs)\<^sup>2) rs"
  have m: "exact_mean (map Fin rs) = Fin (np_mean rs)"
    by (rule exact_mean_Fin [OF assms])
  have sq: "map (\<lambda>x. fmul (fsub x (Fin (np_mean rs))) (fsub x (Fin (np_mean rs)))) (map Fin rs)
      = map Fin ?sq"
    by (simp add: fsub_def power2_eq_square)
  from assms have "?sq \<noteq> []" by simp
  then have msq: "exact_mean (map Fin ?sq) = Fin (np_mean ?sq)"
    by (rule exact_mean_Fin)
  have nonneg: "0 \<le> np_mean ?sq"
    by (auto simp add: np_mean_def intro!: divide_nonneg_nonneg sum_list_nonneg)
  have "exact_std (map Fin rs) = fsqrt (Fin (np_mean ?sq))"
    by (simp only: exact_std_def m sq msq)
  also have "\<dots> = Fin (sqrt (np_mean ?sq))"
    using nonneg by simp
  also have "sqrt (np_mean ?sq) = np_std rs"
    by (simp add: np_std_def np_mean_def)
  finally show ?thesis .
qed

lemma rescale_std_Fin:
  assumes "nd_std l = exact_std" and "np_std rs \<noteq> 0"
  shows "rescale_std l (Some s) (map Fin rs) = map Fin (map (\<lambda>r. s * r / np_std rs) rs)"
  using assms np_std_nonzero_nonempty [OF assms(2)]
  by (simp add: rescale_std_def exact_std_Fin)

lemma shift_mean_Fin:
  assumes "nd_mean l = exact_mean" and "rs \<noteq> []"
  shows "shift_mean l (Some m) (map Fin rs) = map Fin (map (\<lambda>r. r - np_mean rs + m) rs)"
  using assms by (simp add: shift_mean_def exact_mean_Fin fsub_def)

lemma rescaled_statistics:
  assumes "np_std rs \<noteq> 0"
  shows "map (\<lambda>r. s * r / np_std rs) rs \<noteq> []"
    and "np_std (map (\<lambda>r. s * r / np_std rs) rs) = \<bar>s\<bar>"
    and "np_mean (map (\<lambda>r. s * r / np_std rs) rs) = s * np_mean rs / np_std rs"
proof -
  from assms show "map (\<lambda>r. s * r / np_std rs) rs \<noteq> []"
    using np_std_nonzero_nonempty by auto
  have pos: "0 < np_std rs" using assms np_std_nonneg [of rs] by simp
  show "np_std (map (\<lambda>r. s * r / np_std rs) rs) = \<bar>s\<bar>"
    using pos by (simp only: rescale_map np_std_scale) simp
  show "np_mean (map (\<lambda>r. s * r / np_std rs) rs) = s * np_mean rs / np_std rs"
    by (simp only: rescale_map np_mean_scale) simp
qed

lemma shifted_statistics:
  assumes "rs \<noteq> []"
  shows "np_mean (map (\<lambda>r. r - np_mean rs + m) rs) = m"
    and "np_std (map (\<lambda>r. r - np_mean rs + m) rs) = np_std rs"
  using assms by (simp_all add: shift_map np_mean_shift np_std_shift)

lemma example_library_exact:
  "nd_mean example_library = exact_mean" "nd_std example_library = exact_std"
  by (simp_all add: example_library_def)

lemma np_std_0_2: "np_std [0, 2] = 1"
  by (simp add: np_std_def np_mean_def)

lemma exact_std_0_2: "exact_std [Fin 0, Fin 2] = Fin 1"
  using exact_std_Fin [of "[0, 2]"] by (simp add: np_std_0_2)

lemma np_std_4_4: "np_std [4, 4] = 0"
  by (simp add: np_std_def np_mean_def)

lemma exact_std_4_4: "exact_std [Fin 4, Fin 4] = Fin 0"
  using exact_std_Fin [of "[4, 4]"] by (simp add: np_std_4_4)

lemma fdiv_zero_not_Fin: "fdiv x (Fin 0) \<noteq> Fin r"
  by (cases x) (simp_all add: sgn_inf_def)

lemma fadd_not_Fin: "\<forall>r. x \<noteq> Fin r \<Longrightarrow> fadd x y \<noteq> Fin r"
  by (cases x; cases y) simp_all

lemma fsub_not_Fin: "\<forall>r. x \<noteq> Fin r \<Longrightarrow> fsub x y \<noteq> Fin r"
  unfolding fsub_def by (rule fadd_not_Fin)

lemma normalize_zero_std:
  assumes "nd_std l xs = Fin 0" and "y \<in> set (normalize l (Some s) mean_arg xs)"
  shows "y \<noteq> Fin r"
proof (cases mean_arg)
  case None
  with assms show ?thesis
    by (auto simp add: normalize_def rescale_std_def shift_mean_def fdiv_zero_not_Fin)
next
  case (Some m)
  with assms obtain x where "y = fadd (fsub (fdiv (fmul (Fin s) x) (Fin 0))
      (nd_mean l (map (\<lambda>x. fdiv (fmul (Fin s) x) (Fin 0)) xs))) (Fin m)"
    by (auto simp add: normalize_def rescale_std_def shift_mean_def)
  then show ?thesis
    by (simp add: fadd_not_Fin fsub_not_Fin fdiv_zero_not_Fin)
qed

text \<open>
  With the target std 2 and no target mean, the particle with the values 0 and 2 (mean 1,
  standard deviation 1) becomes 0 and 4: its mean is 2 and no longer 1. With the target std
  -1 the same particle becomes 0 and -2, whose standard deviation is 1 and not -1. With
  the target std 3 the particle with the values 4 and 4 (standard deviation 0) becomes
  infinity and infinity: the division by zero is no error, the particle is returned.
\<close>

theorem normalize_mean_counterexample:
  "normalize example_library (Some 2) None [Fin 0, Fin 2] = [Fin 0, Fin 4]
   \<and> np_mean [0, 2] = 1 \<and> np_mean [0, 4] = 2
   \<and> normalize example_library (Some (- 1)) None [Fin 0, Fin 2] = [Fin 0, Fin (- 2)]
   \<and> np_std [0, - 2] = 1
   \<and> nd_std example_library [Fin 4, Fin 4] = Fin 0
   \<and> normalize example_library (Some 3) None [Fin 4, Fin 4] = [PInf, PInf]"
  by (simp add: normalize_def rescale_std_def shift_mean_def example_library_exact
      exact_std_0_2 exact_std_4_4 np_mean_def np_std_def sgn_inf_def)

text \<open>
  C7, as the code has it. The mean and the standard deviation are the ones of numpy (the
  standard deviation is the root of the mean squared deviation from the mean), taken
  without rounding, and the voxels are finite numbers. With a target std \<open>s\<close> and a
  particle whose standard deviation is not 0, the particle is rescaled by \<open>s / std\<close>:
  its standard deviation becomes \<open>\<bar>s\<bar>\<close> (the target, when this is not negative) and
  its mean is multiplied by \<open>s / std\<close>. With a target mean the particle is then shifted:
  its mean becomes the target and its standard deviation stays. With both targets and a
  standard deviation that is not 0 the result has the standard deviation \<open>\<bar>s\<bar>\<close> and
  the target mean. Without a target std nothing is rescaled; without a target mean nothing
  is shifted, and without both the particle is unchanged. When numpy gives the standard
  deviation 0, the rescale divides by zero and nothing is raised: the particle is
  returned, and each of its values is infinite or nan. With no dtype set, the particle
  that is written is the normalized one.
\<close>

theorem normalize_statistics:
  assumes "nd_mean l = exact_mean" and "nd_std l = exact_std"
  shows "(np_std rs \<noteq> 0 \<longrightarrow>
        (\<exists>ys. normalize l (Some s) None (map Fin rs) = map Fin ys \<and> np_std ys = \<bar>s\<bar>
           \<and> np_mean ys = s * np_mean rs / np_std rs)
      \<and> (\<exists>ys. normalize l (Some s) (Some m) (map Fin rs) = map Fin ys \<and> np_std ys = \<bar>s\<bar>
           \<and> np_mean ys = m))
    \<and> (rs \<noteq> [] \<longrightarrow>
        (\<exists>ys. normalize l None (Some m) (map Fin rs) = map Fin ys \<and> np_mean ys = m
           \<and> np_std ys = np_std rs))
    \<and> normalize l None None xs = xs
    \<and> (nd_std l xs = Fin 0 \<longrightarrow>
        length (normalize l (Some s) mean_arg xs) = length xs
        \<and> (\<forall>y \<in> set (normalize l (Some s) mean_arg xs). \<forall>r. y \<noteq> Fin r))
    \<and> (dtype st = None \<longrightarrow>
        write_one l False sl path st
          = st\<lparr>fs_log := fs_log st @
               [WriteMrc path (normalize l (std st) (mean st) (useInset (cur_tomo st) sl))
                  (header (cur_tomo st))]\<rparr>)"
proof (intro conjI impI ballI allI)
  assume nz: "np_std rs \<noteq> 0"
  note r = rescaled_statistics [OF nz, of s]
  have "normalize l (Some s) None (map Fin rs) = map Fin (map (\<lambda>r. s * r / np_std rs) rs)"
    by (simp add: normalize_def shift_mean_def rescale_std_Fin [OF assms(2) nz])
  with r(2,3) show "\<exists>ys. normalize l (Some s) None (map Fin rs) = map Fin ys
      \<and> np_std ys = \<bar>s\<bar> \<and> np_mean ys = s * np_mean rs / np_std rs"
    by blast
  have "normalize l (Some s) (Some m) (map Fin rs)
      = map Fin (map (\<lambda>r. r - np_mean (map (\<lambda>r. s * r / np_std rs) rs) + m)
          (map (\<lambda>r. s * r / np_std rs) rs))"
    by (simp only: normalize_def rescale_std_Fin [OF assms(2) nz]
        shift_mean_Fin [OF assms(1) r(1)])
  with shifted_statistics [OF r(1), of m] r(2)
  show "\<exists>ys. normalize l (Some s) (Some m) (map Fin rs) = map Fin ys
      \<and> np_std ys = \<bar>s\<bar> \<and> np_mean ys = m"
    by metis
next
  assume ne: "rs \<noteq> []"
  have "normalize l None (Some m) (map Fin rs) = map Fin (map (\<lambda>r. r - np_mean rs + m) rs)"
    by (simp add: normalize_def rescale_std_def shift_mean_Fin [OF assms(1) ne])
  with shifted_statistics [OF ne, of m]
  show "\<exists>ys. normalize l None (Some m) (map Fin rs) = map Fin ys \<and> np_mean ys = m
      \<and> np_std ys = np_std rs"
    by blast
next
  show "normalize l None None xs = xs"
    by (simp add: normalize_def rescale_std_def shift_mean_def)
next
  show "length (normalize l (Some s) mean_arg xs) = length xs"
    by (simp add: normalize_def rescale_std_def shift_mean_def split: option.splits)
next
  fix y r
  assume "nd_std l xs = Fin 0" and "y \<in> set (normalize l (Some s) mean_arg xs)"
  then show "y \<noteq> Fin r"
    by (rule normalize_zero_std)
next
  assume "dtype st = None"
  then show "write_one l False sl path st
          = st\<lparr>fs_log := fs_log st @
               [WriteMrc path (normalize l (std st) (mean st) (useInset (cur_tomo st) sl))
                  (header (cur_tomo st))]\<rparr>"
    by (simp add: write_one_def clip_cast_def particle_data_of_def)
qed

theorem normalize_statistics_witness:
  "nd_mean example_library = exact_mean \<and> nd_std example_library = exact_std
   \<and> np_std [0, 2] \<noteq> 0
   \<and> (\<exists>ys. normalize example_library (Some 3) (Some 5) (map Fin [0, 2]) = map Fin ys
         \<and> np_std ys = 3 \<and> np_mean ys = 5)
   \<and> (\<exists>ys. normalize example_library None (Some 5) (map Fin [0, 2]) = map Fin ys
         \<and> np_mean ys = 5 \<and> np_std ys = 1)
   \<and> nd_std example_library [Fin 4, Fin 4] = Fin 0
   \<and> normalize example_library (Some 3) (Some 5) [Fin 4, Fin 4] = [NaN, NaN]
   \<and> dtype example_set = None
   \<and> write_one example_library False ((0, 10), (0, 10), (0, 10)) ''p.mrc'' example_set
       = example_set\<lparr>fs_log := [WriteMrc ''p.mrc'' [Fin 0, Fin 2] ''hdr'']\<rparr>"
  using normalize_statistics [OF example_library_exact, where rs = "[0, 2]" and s = 3
      and m = 5 and xs = "[Fin 4, Fin 4]" and mean_arg = "Some 5" and st = example_set
      and sl = "((0, 10), (0, 10), (0, 10))" and path = "''p.mrc''"]
  by (simp add: np_std_0_2 example_library_exact exact_std_4_4)
    (simp add: example_set_def new_set_def example_tomo_def normalize_def rescale_std_def
      shift_mean_def example_library_exact exact_std_4_4 exact_mean_def fsum_def fsub_def
      sgn_inf_def)

subsection \<open>Clipping to the range of the dtype\<close>



























subsection \<open>File names of the particles\<close>


















section \<open>Properties of the correlation script\<close>

subsection \<open>Which marker positions are read\<close>

text \<open>
  With both the unified and the split marker rows defined, the \<open>try\<close> block runs to its
  end: the unified positions are set up, the split ones are not looked at, and nothing is
  raised.
\<close>

theorem marker_specs_both_counterexample:
  "lm_markers_rows both_params = Some (Rows [6, 7])
   \<and> overview_markers_rows both_params = Some (Rows [0, 1])
   \<and> lm_markers_rows_gl both_params = Some (Rows [6, 7, 8, 9])
   \<and> lm_markers_rows_d both_params = Some (Rows [6])
   \<and> overview_markers_rows_gl both_params = Some (Rows [0, 1, 2, 3])
   \<and> overview_markers_rows_d both_params = Some (Rows [0])
   \<and> lm2overview_specs both_params
       = Inr [(''lmMarkers'', ''correlation_data.dat'', Rows [6, 7]),
              (''overviewMarkers'', ''correlation_data.dat'', Rows [0, 1])]"
  by (simp add: both_params_def script_params_def lm2overview_specs_def)

text \<open>
  C3, as the code has it. When both unified marker row arguments are supplied, the positions for the
  joint fit (\<open>lmMarkers\<close>, \<open>overviewMarkers\<close>) are set up, whether the split arguments
  are supplied or not. When no unified argument is supplied and all four split arguments
  are, the positions for the split strategy (\<open>lmMarkersGl\<close>, \<open>lmMarkersD\<close>,
  \<open>overviewMarkersGl\<close>, \<open>overviewMarkersD\<close>) are set up. When neither set is supplied
  in full, NameError is raised.
\<close>

theorem marker_specs_selection:
  "(lm_markers_rows p = Some r_lm \<and> overview_markers_rows p = Some r_ov \<longrightarrow>
      lm2overview_specs p
        = Inr [(''lmMarkers'', lm_markers_file p, r_lm),
               (''overviewMarkers'', overview_markers_file p, r_ov)])
   \<and> (lm_markers_rows p = None \<and> overview_markers_rows p = None
        \<and> lm_markers_rows_gl p = Some r_lm_gl \<and> lm_markers_rows_d p = Some r_lm_d
        \<and> overview_markers_rows_gl p = Some r_ov_gl \<and> overview_markers_rows_d p = Some r_ov_d \<longrightarrow>
      lm2overview_specs p
        = Inr [(''lmMarkersGl'', lm_markers_file p, r_lm_gl),
               (''lmMarkersD'', lm_markers_file p, r_lm_d),
               (''overviewMarkersGl'', overview_markers_file p, r_ov_gl),
               (''overviewMarkersD'', overview_markers_file p, r_ov_d)])
   \<and> ((lm_markers_rows p = None \<or> overview_markers_rows p = None)
        \<and> (lm_markers_rows_gl p = None \<or> lm_markers_rows_d p = None
             \<or> overview_markers_rows_gl p = None \<or> overview_markers_rows_d p = None) \<longrightarrow>
      (\<exists>name. lm2overview_specs p = Inl (NameError name)))"
  by (auto simp add: lm2overview_specs_def split_specs_def split: option.splits)

theorem marker_specs_selection_witness:
  "lm2overview_specs unified_params
     = Inr [(''lmMarkers'', ''correlation_data.dat'', Rows [6, 7]),
            (''overviewMarkers'', ''correlation_data.dat'', Rows [0, 1])]
   \<and> lm2overview_specs script_params
     = Inr [(''lmMarkersGl'', ''correlation_data.dat'', Rows [6, 7, 8, 9]),
            (''lmMarkersD'', ''correlation_data.dat'', Rows [6]),
            (''overviewMarkersGl'', ''correlation_data.dat'', Rows [0, 1, 2, 3]),
            (''overviewMarkersD'', ''correlation_data.dat'', Rows [0])]
   \<and> lm2overview_specs neither_params = Inl (NameError ''lm_markers_rows_gl'')"
  using marker_specs_selection [of unified_params "Rows [6, 7]" "Rows [0, 1]"]
    marker_specs_selection [of script_params _ _ "Rows [6, 7, 8, 9]" "Rows [6]" "Rows [0, 1, 2, 3]" "Rows [0]"]
    marker_specs_selection [of neither_params]
  by (auto simp add: unified_params_def script_params_def neither_params_def
      lm2overview_specs_def split_specs_def)

subsection \<open>Mosaic correction\<close>

lemma readPositions_other:
  "readPositions ext sp fmt cols c = Inr c' \<Longrightarrow> k \<notin> fst ` set sp \<Longrightarrow> c' k = c k"
proof (induction sp arbitrary: c)
  case Nil
  then show ?case by simp
next
  case (Cons s sp)
  obtain key fname rws where s: "s = (key, fname, rws)" by (cases s)
  from Cons.prems(1) obtain pts where
    rest: "readPositions ext sp fmt cols (c(key \<mapsto> Pts pts)) = Inr c'"
    by (auto simp add: s and_then_Inr_iff)
  from Cons.prems(2) have "k \<noteq> key" "k \<notin> fst ` set sp" by (auto simp add: s)
  with Cons.IH [OF rest] show ?case by simp
qed

lemma read_search_detail_other:
  "read_search_detail ext p c = Inr c' \<Longrightarrow> k \<noteq> ''searchDetail'' \<Longrightarrow> c' k = c k"
  by (auto simp add: read_search_detail_def and_then_Inr_iff split: option.splits)

lemma overview_search_part_markers:
  assumes "overview_search_part ext p c = Inr c'"
  shows "c' ''overviewMarkers'' = c ''overviewMarkers''"
proof -
  from assms obtain c2 c3 where
    r2: "readPositions ext [(''overviewDetail'', overview_detail_file p, overview_detail_rows p)]
           (positions_file_type p) (overview_detail_xy_columns p)
           (c(''mode'' \<mapsto> Txt (overview2search_mode p))) = Inr c2"
    and r3: "read_search_detail ext p c2 = Inr c3"
    and c': "c' = (if c3 ''mode'' = Some (Txt ''move overview'')
           then c3(''searchMain'' \<mapsto> Pt (search_main p),
                   ''overviewCenter'' \<mapsto> Pt (overview_center p))
           else c3)"
    by (auto simp add: overview_search_part_def Let_def and_then_Inr_iff)
  have "c2 ''overviewMarkers'' = c ''overviewMarkers''"
    using readPositions_other [OF r2, of "''overviewMarkers''"] by simp
  moreover have "c3 ''overviewMarkers'' = c2 ''overviewMarkers''"
    using read_search_detail_other [OF r3, of "''overviewMarkers''"] by simp
  moreover have "c' ''overviewMarkers'' = c3 ''overviewMarkers''"
    by (simp add: c')
  ultimately show ?thesis by simp
qed

lemma spots_part_markers:
  assumes "spots_part ext p c = Inr c'"
  shows "c' ''overviewMarkers'' = c ''overviewMarkers''"
proof -
  define sp1 where "sp1 = (case lm_spots_rows p of
               Some r \<Rightarrow> [(''lmSpots'', lm_spots_file p, r)]
             | None \<Rightarrow> [])"
  define sp2 where "sp2 = (case search_spots p of
                Some sp \<Rightarrow> sp1
              | None \<Rightarrow>
             (case search_spots_file p of
                None \<Rightarrow> sp1
              | Some f \<Rightarrow>
             (case search_spots_rows p of
                None \<Rightarrow> sp1
              | Some r \<Rightarrow> sp1 @ [(''searchSpots'', f, r)])))"
  define c1 where "c1 = (case lm_spots_rows p of Some r \<Rightarrow> c | None \<Rightarrow> c(''lmSpots'' \<mapsto> PyNone))"
  have k1: "''overviewMarkers'' \<notin> fst ` set sp1"
    by (cases "lm_spots_rows p") (simp_all add: sp1_def)
  have k2: "''overviewMarkers'' \<notin> fst ` set sp2"
    using k1 by (auto simp add: sp2_def split: option.splits)
  have eq: "spots_part ext p c =
      and_then (readPositions ext sp1 (positions_file_type p) (lm_spots_xy_columns p) c1) (\<lambda>c2.
        readPositions ext sp2 (positions_file_type p) (search_spots_xy_columns p)
      (c2(''overviewSpots'' \<mapsto>
                    (case overview_spots p of Some sp \<Rightarrow> Pts sp | None \<Rightarrow> PyNone),
          ''overviewSpotLabels'' \<mapsto>
                    (case overview_spot_labels p of Some l \<Rightarrow> Labels l | None \<Rightarrow> PyNone),
          ''searchSpots'' \<mapsto>
                    (case search_spots p of Some sp \<Rightarrow> Pts sp | None \<Rightarrow> PyNone),
          ''searchSpotLabels'' \<mapsto>
                    (case search_spot_labels p of Some l \<Rightarrow> Labels l | None \<Rightarrow> PyNone))))"
    unfolding spots_part_def Let_def sp1_def sp2_def c1_def by (rule refl)
  from assms obtain c2 where
    r1: "readPositions ext sp1 (positions_file_type p) (lm_spots_xy_columns p) c1 = Inr c2"
    and r2: "readPositions ext sp2 (positions_file_type p) (search_spots_xy_columns p)
      (c2(''overviewSpots'' \<mapsto>
                    (case overview_spots p of Some sp \<Rightarrow> Pts sp | None \<Rightarrow> PyNone),
          ''overviewSpotLabels'' \<mapsto>
                    (case overview_spot_labels p of Some l \<Rightarrow> Labels l | None \<Rightarrow> PyNone),
          ''searchSpots'' \<mapsto>
                    (case search_spots p of Some sp \<Rightarrow> Pts sp | None \<Rightarrow> PyNone),
          ''searchSpotLabels'' \<mapsto>
                    (case search_spot_labels p of Some l \<Rightarrow> Labels l | None \<Rightarrow> PyNone))) = Inr c'"
    by (auto simp add: eq and_then_Inr_iff)
  have "c1 ''overviewMarkers'' = c ''overviewMarkers''"
    by (simp add: c1_def split: option.splits)
  moreover have "c2 ''overviewMarkers'' = c1 ''overviewMarkers''"
    using readPositions_other [OF r1 k1] .
  moreover have "c' ''overviewMarkers'' = c2 ''overviewMarkers''"
    using readPositions_other [OF r2 k2] by simp
  ultimately show ?thesis by simp
qed

lemma shift_markers_eq:
  "shift_markers om mm = Inr om' \<longleftrightarrow>
     (\<exists>m0 m1 rest. mm = m0 # m1 # rest \<and> om' = map (\<lambda>q. pt_add q (pt_sub m1 m0)) om)"
  by (auto simp add: shift_markers_def pt_add_def pt_sub_def split: list.splits)

lemma get_pts_Inr_iff: "get_pts c name = Inr ps \<longleftrightarrow> c name = Some (Pts ps)"
  by (auto simp add: get_pts_def split: option.splits attr.splits)

lemma lm_overview_part_mosaic:
  assumes mode: "overview2search_mode p = ''move overview''" "mosaic p"
    and unified: "lm_markers_rows p = Some r_lm" "overview_markers_rows p = Some r_ov"
    and ok: "lm_overview_part ext p corr0 = Inr c"
  shows "\<exists>ms mosaic_main single_main rest.
      read_table ext (overview_markers_file p) (positions_file_type p) (xy_columns p) r_ov = Inr ms
    \<and> read_table ext (overview_detail_file p) (positions_file_type p) (xy_columns p)
        (Rows [overview_mosaic_main_row p, overview_main_row p])
        = Inr (mosaic_main # single_main # rest)
    \<and> c ''overviewMarkers''
        = Some (Pts (map (\<lambda>q. pt_add q (pt_sub single_main mosaic_main)) ms))"
proof -
  have sp: "lm2overview_specs p
      = Inr [(''lmMarkers'', lm_markers_file p, r_lm),
             (''overviewMarkers'', overview_markers_file p, r_ov)]"
    by (simp add: lm2overview_specs_def unified)
  from ok obtain c1 where
    r1: "readPositions ext [(''lmMarkers'', lm_markers_file p, r_lm),
             (''overviewMarkers'', overview_markers_file p, r_ov)]
           (positions_file_type p) (xy_columns p) corr0 = Inr c1"
    and mc: "mosaic_correction ext p c1 = Inr c"
    by (auto simp add: lm_overview_part_def sp and_then_Inr_iff)
  from r1 obtain ml ms where
    ms: "read_table ext (overview_markers_file p) (positions_file_type p) (xy_columns p) r_ov = Inr ms"
    and c1: "c1 = corr0(''lmMarkers'' \<mapsto> Pts ml, ''overviewMarkers'' \<mapsto> Pts ms)"
    by (auto simp add: and_then_Inr_iff)
  from mc obtain mm om' where
    mm: "read_table ext (overview_detail_file p) (positions_file_type p) (xy_columns p)
        (Rows [overview_mosaic_main_row p, overview_main_row p]) = Inr mm"
    and sh: "shift_markers ms mm = Inr om'"
    and c: "c = (c1(''mosaic_markers'' \<mapsto> Pts mm))(''overviewMarkers'' \<mapsto> Pts om')"
    by (auto simp add: mosaic_correction_def mode Let_def and_then_Inr_iff get_pts_Inr_iff c1)
  from sh obtain m0 m1 rest where
    "mm = m0 # m1 # rest" "om' = map (\<lambda>q. pt_add q (pt_sub m1 m0)) ms"
    by (auto simp add: shift_markers_eq)
  with ms mm c show ?thesis by simp
qed

text \<open>
  C2, as the code has it. In the mode "move overview" with a mosaic, and with the unified marker rows
  supplied, the correlation object that \<open>corr.establish\<close> gets (when nothing has raised
  before) holds as overview markers the positions read from the file, each one shifted
  once by (position of the main feature on the single overview image - its position on
  the mosaic): the first of the two rows read for the mosaic markers is
  \<open>overview_mosaic_main_row\<close>, the second \<open>overview_main_row\<close>.
\<close>

theorem mosaic_correction_shift:
  assumes mode: "overview2search_mode p = ''move overview''" "mosaic p"
    and unified: "lm_markers_rows p = Some r_lm" "overview_markers_rows p = Some r_ov"
    and ok: "before_establish ext p corr0 = Inr c"
  shows "(\<exists>ms mosaic_main single_main rest.
      read_table ext (overview_markers_file p) (positions_file_type p) (xy_columns p) r_ov = Inr ms
    \<and> read_table ext (overview_detail_file p) (positions_file_type p) (xy_columns p)
        (Rows [overview_mosaic_main_row p, overview_main_row p])
        = Inr (mosaic_main # single_main # rest)
    \<and> c ''overviewMarkers''
        = Some (Pts (map (\<lambda>q. pt_add q (pt_sub single_main mosaic_main)) ms)))
    \<and> main_correlation ext p corr0
        = and_then (establish ext (lm2overview_type p) (overview2search_type p) c)
            (inverse_correlations ext)"
proof -
  from ok obtain c1 c2 where
    p1: "lm_overview_part ext p corr0 = Inr c1"
    and p2: "overview_search_part ext p c1 = Inr c2"
    and p3: "spots_part ext p c2 = Inr c"
    by (auto simp add: before_establish_def and_then_Inr_iff)
  have "c ''overviewMarkers'' = c1 ''overviewMarkers''"
    using overview_search_part_markers [OF p2] spots_part_markers [OF p3] by simp
  with lm_overview_part_mosaic [OF mode unified p1]
  have "\<exists>ms mosaic_main single_main rest.
      read_table ext (overview_markers_file p) (positions_file_type p) (xy_columns p) r_ov = Inr ms
    \<and> read_table ext (overview_detail_file p) (positions_file_type p) (xy_columns p)
        (Rows [overview_mosaic_main_row p, overview_main_row p])
        = Inr (mosaic_main # single_main # rest)
    \<and> c ''overviewMarkers''
        = Some (Pts (map (\<lambda>q. pt_add q (pt_sub single_main mosaic_main)) ms))"
    by simp
  moreover have "main_correlation ext p corr0
        = and_then (establish ext (lm2overview_type p) (overview2search_type p) c)
            (inverse_correlations ext)"
    by (simp add: main_correlation_def ok and_then_def)
  ultimately show ?thesis by simp
qed

lemmas example_main_defs =
  before_establish_def lm_overview_part_def overview_search_part_def spots_part_def
  mosaic_params_def unified_params_def script_params_def example_main_externals_def
  lm2overview_specs_def mosaic_correction_def read_search_detail_def get_pts_def shift_markers_def
  pt_add_def pt_sub_def and_then_def Let_def

text \<open>
  The reader gives (0, 0) and (1, 10) for the overview markers, (17, 170) for the main
  feature on the mosaic and (13, 130) for it on the single image. The markers become
  (-4, -40) and (-3, -30); a shift by (mosaic - single) would give (4, 40) and (5, 50).
\<close>

theorem mosaic_shift_counterexample:
  "read_table example_main_externals ''correlation_data.dat'' ''imagej'' [2, 3] (Rows [0, 1])
     = Inr [(0, 0), (1, 10)]
   \<and> read_table example_main_externals ''correlation_data.dat'' ''imagej'' [2, 3] (Rows [17, 13])
     = Inr [(17, 170), (13, 130)]
   \<and> (case before_establish example_main_externals mosaic_params Map.empty of
        Inl e \<Rightarrow> None
      | Inr c \<Rightarrow> c ''overviewMarkers'') = Some (Pts [(- 4, - 40), (- 3, - 30)])
   \<and> pt_add (0, 0) (pt_sub (17, 170) (13, 130)) = (4, 40)
   \<and> pt_add (1, 10) (pt_sub (17, 170) (13, 130)) = (5, 50)"
  by (simp add: example_main_defs)

theorem mosaic_correction_shift_witness:
  "overview2search_mode mosaic_params = ''move overview'' \<and> mosaic mosaic_params
   \<and> lm_markers_rows mosaic_params = Some (Rows [6, 7])
   \<and> overview_markers_rows mosaic_params = Some (Rows [0, 1])
   \<and> (\<exists>c. before_establish example_main_externals mosaic_params Map.empty = Inr c
         \<and> c ''overviewMarkers''
             = Some (Pts [pt_add (0, 0) (pt_sub (13, 130) (17, 170)),
                          pt_add (1, 10) (pt_sub (13, 130) (17, 170))]))"
proof -
  have "\<exists>c. before_establish example_main_externals mosaic_params Map.empty = Inr c"
    by (simp add: example_main_defs)
  then obtain c where run: "before_establish example_main_externals mosaic_params Map.empty = Inr c"
    by blast
  have mode: "overview2search_mode mosaic_params = ''move overview''" "mosaic mosaic_params"
    and unified: "lm_markers_rows mosaic_params = Some (Rows [6, 7])"
      "overview_markers_rows mosaic_params = Some (Rows [0, 1])"
    by (simp_all add: mosaic_params_def unified_params_def script_params_def)
  have "c ''overviewMarkers''
      = Some (Pts [pt_add (0, 0) (pt_sub (13, 130) (17, 170)),
                   pt_add (1, 10) (pt_sub (13, 130) (17, 170))])"
    using mosaic_correction_shift [OF mode unified run]
    by (auto simp add: mosaic_params_def unified_params_def script_params_def
        example_main_externals_def)
  with run mode unified show ?thesis by blast
qed

subsection \<open>Error of the inverse transformation\<close>





end
